theory Spec2Isabelle
  imports Complex_Main "HOL-Library.Word" "HOL-Library.Char_ord" "HOL-Library.List_Lexorder"
begin

section \<open>BlitzBoat dashboard (web/app.js): a shallow embedding\<close>

text \<open>
  The script is a browser page: it reads a JSON snapshot, and writes texts and markup
  into a fixed set of page elements. The embedding keeps
  \<^item> JavaScript numbers as \<open>jsnum\<close>: NaN, the two infinities and the finite doubles,
    each finite double as the rational it is; a product, a quotient and a sum are the
    exact result rounded to the nearest double, ties to even, as IEEE-754 has it. The
    sign of zero is not represented: a snapshot is taken to hold no negative zero, and
    one that arises in a computation prints as zero and is never a divisor here;
  \<^item> a JSON object as a record whose fields are all optional (\<open>None\<close> is a property
    that is absent, that is \<open>undefined\<close> when read), typed as section 3 of the
    specification types them;
  \<^item> the text written into an element as a list of pieces, a number converted by the
    platform (\<open>String(x)\<close>, \<open>toLocaleString\<close>) being kept as the number;
  \<^item> the page elements the script touches as one record, and the module variable
    \<open>currentData\<close> and the session storage beside it;
  \<^item> a thrown exception as \<open>Inl\<close> of a sum.
\<close>

subsection \<open>Numbers\<close>

datatype jsnum = NaN | NInf | Fin rat | PInf

text \<open>The number of binary digits of a positive integer.\<close>

function bitlen :: "int \<Rightarrow> int" where
  "bitlen n = (if n \<le> 0 then 0 else 1 + bitlen (n div 2))"
  by pat_completeness auto
termination
  by (relation "measure nat") auto

declare bitlen.simps [simp del]

definition pow2 :: "int \<Rightarrow> rat" where
  "pow2 k = (if 0 \<le> k then 2 ^ nat k else 1 / 2 ^ nat (- k))"

text \<open>The exponent \<open>e\<close> of a positive rational: \<open>2^e \<le> a < 2^(e+1)\<close>. The difference of
  the bit lengths of numerator and denominator is \<open>e\<close> or \<open>e + 1\<close>.\<close>

definition floor_log2 :: "rat \<Rightarrow> int" where
  "floor_log2 a =
     (let (n, d) = quotient_of a;
          e = bitlen n - bitlen d
      in if pow2 e \<le> a then e else e - 1)"

text \<open>The nearest integer, the even one of two.\<close>

definition round_half_even :: "rat \<Rightarrow> int" where
  "round_half_even m =
     (let f = \<lfloor>m\<rfloor>; r = m - of_int f
      in if r < 1 / 2 then f else if 1 / 2 < r then f + 1 else if even f then f else f + 1)"

text \<open>The double nearest to a rational (IEEE-754 binary64, round to nearest, ties to
  even): 53 significant bits, the spacing never below \<open>2^-1074\<close> (the subnormal
  range), and an infinity from \<open>2^1024\<close> on.\<close>

definition round64 :: "rat \<Rightarrow> jsnum" where
  "round64 q =
     (if q = 0 then Fin 0
      else
        (let a = \<bar>q\<bar>; e = floor_log2 a
         in if 1024 \<le> e then (if 0 < q then PInf else NInf)
            else
              (let ulp = pow2 (max (e - 52) (- 1074));
                   m = round_half_even (a / ulp)
               in if e = 1023 \<and> m = 2 ^ 53 then (if 0 < q then PInf else NInf)
                  else Fin ((if 0 < q then 1 else - 1) * (of_int m * ulp)))))"

text \<open>A decimal literal of the script, and a number of a JSON text: the double nearest
  to the decimal. An integer below \<open>2^53\<close> is its own double and is written \<open>Fin n\<close>.\<close>

definition lit :: "rat \<Rightarrow> jsnum" where
  "lit q = round64 q"

text \<open>\<open>x * y\<close> on numbers.\<close>

fun js_mul :: "jsnum \<Rightarrow> jsnum \<Rightarrow> jsnum" where
  "js_mul NaN _ = NaN"
| "js_mul _ NaN = NaN"
| "js_mul (Fin a) (Fin b) = round64 (a * b)"
| "js_mul (Fin a) PInf = (if a = 0 then NaN else if 0 < a then PInf else NInf)"
| "js_mul (Fin a) NInf = (if a = 0 then NaN else if 0 < a then NInf else PInf)"
| "js_mul PInf (Fin b) = (if b = 0 then NaN else if 0 < b then PInf else NInf)"
| "js_mul NInf (Fin b) = (if b = 0 then NaN else if 0 < b then NInf else PInf)"
| "js_mul PInf PInf = PInf"
| "js_mul NInf NInf = PInf"
| "js_mul PInf NInf = NInf"
| "js_mul NInf PInf = NInf"

text \<open>\<open>x / y\<close> on numbers: a division by zero is an infinity, or NaN for \<open>0 / 0\<close>.\<close>

fun js_div :: "jsnum \<Rightarrow> jsnum \<Rightarrow> jsnum" where
  "js_div NaN _ = NaN"
| "js_div _ NaN = NaN"
| "js_div (Fin a) (Fin b) =
     (if b = 0 then (if a = 0 then NaN else if 0 < a then PInf else NInf)
      else round64 (a / b))"
| "js_div (Fin a) PInf = Fin 0"
| "js_div (Fin a) NInf = Fin 0"
| "js_div PInf (Fin b) = (if 0 \<le> b then PInf else NInf)"
| "js_div NInf (Fin b) = (if 0 \<le> b then NInf else PInf)"
| "js_div PInf PInf = NaN"
| "js_div NInf NInf = NaN"
| "js_div PInf NInf = NaN"
| "js_div NInf PInf = NaN"

text \<open>\<open>x + y\<close> on numbers.\<close>

fun js_add :: "jsnum \<Rightarrow> jsnum \<Rightarrow> jsnum" where
  "js_add NaN _ = NaN"
| "js_add _ NaN = NaN"
| "js_add (Fin a) (Fin b) = round64 (a + b)"
| "js_add (Fin a) PInf = PInf"
| "js_add (Fin a) NInf = NInf"
| "js_add PInf (Fin b) = PInf"
| "js_add NInf (Fin b) = NInf"
| "js_add PInf PInf = PInf"
| "js_add NInf NInf = NInf"
| "js_add PInf NInf = NaN"
| "js_add NInf PInf = NaN"

text \<open>The smaller and the larger of two numbers, as \<open>Math.min\<close> and \<open>Math.max\<close>
  compare them: NaN wins over everything.\<close>

fun min2 :: "jsnum \<Rightarrow> jsnum \<Rightarrow> jsnum" where
  "min2 NaN _ = NaN"
| "min2 _ NaN = NaN"
| "min2 NInf _ = NInf"
| "min2 _ NInf = NInf"
| "min2 PInf b = b"
| "min2 a PInf = a"
| "min2 (Fin a) (Fin b) = Fin (min a b)"

fun max2 :: "jsnum \<Rightarrow> jsnum \<Rightarrow> jsnum" where
  "max2 NaN _ = NaN"
| "max2 _ NaN = NaN"
| "max2 PInf _ = PInf"
| "max2 _ PInf = PInf"
| "max2 NInf b = b"
| "max2 a NInf = a"
| "max2 (Fin a) (Fin b) = Fin (max a b)"

text \<open>\<open>Math.min(...xs)\<close> and \<open>Math.max(...xs)\<close>: with no argument they are
  \<open>Infinity\<close> and \<open>-Infinity\<close>.\<close>

definition Math_min :: "jsnum list \<Rightarrow> jsnum" where
  "Math_min xs = foldl min2 PInf xs"

definition Math_max :: "jsnum list \<Rightarrow> jsnum" where
  "Math_max xs = foldl max2 NInf xs"

text \<open>Reading a numeric property into an arithmetic operator: \<open>undefined\<close> becomes NaN.\<close>

definition to_number :: "jsnum option \<Rightarrow> jsnum" where
  "to_number v = (case v of None \<Rightarrow> NaN | Some x \<Rightarrow> x)"

text \<open>\<open>v || d\<close> where \<open>v\<close> is a number or absent: zero, NaN and \<open>undefined\<close> are
  falsy and give the default.\<close>

definition num_or :: "jsnum option \<Rightarrow> jsnum \<Rightarrow> jsnum" where
  "num_or v d = (case v of None \<Rightarrow> d | Some x \<Rightarrow> if x = Fin 0 \<or> x = NaN then d else x)"

text \<open>\<open>v || d\<close> where \<open>v\<close> is a string or absent: the empty string is falsy.\<close>

definition str_or :: "string option \<Rightarrow> string \<Rightarrow> string" where
  "str_or v d = (case v of None \<Rightarrow> d | Some s \<Rightarrow> if s = [] then d else s)"

subsection \<open>Decimal digits and \<open>toFixed\<close>\<close>

definition digit_char :: "nat \<Rightarrow> char" where
  "digit_char d = ''0123456789'' ! d"

text \<open>\<open>String(n)\<close> for a natural number below \<open>10^21\<close>: its decimal digits.\<close>

function digits :: "nat \<Rightarrow> string" where
  "digits n = (if n < 10 then [digit_char n] else digits (n div 10) @ [digit_char (n mod 10)])"
  by pat_completeness auto
termination
  by (relation "measure id") auto

declare digits.simps [simp del]

text \<open>\<open>s.padStart(k, '0')\<close>.\<close>

definition padStart0 :: "nat \<Rightarrow> string \<Rightarrow> string" where
  "padStart0 k s = replicate (k - length s) CHR ''0'' @ s"

text \<open>The text a conversion or a template produces, in pieces: a string, a fixed literal
  of the script (its Japanese messages, by name), \<open>String(x)\<close> of a number and
  \<open>x.toLocaleString()\<close> of a number.\<close>

datatype msg =
    AlertHead | AlertMid | NoChanceRaces | NoData | NoRanking | NoTickets
  | WrongPassword | SelectVenue | UnknownName

datatype piece = S string | M msg | N jsnum | Loc jsnum

type_synonym jstext = "piece list"

text \<open>\<open>x.toFixed(f)\<close>: a value that is not finite, or is \<open>10^21\<close> or more, is converted
  as \<open>String(x)\<close>; otherwise the sign, then the integer nearest to \<open>x * 10^f\<close> (the larger
  one of two), with the point before its last \<open>f\<close> digits. The integer is the nearest
  to the exact value of the double, with no further rounding.\<close>

definition fixed_digits :: "nat \<Rightarrow> rat \<Rightarrow> string" where
  "fixed_digits f q =
     (let n = nat \<lfloor>q * 10 ^ f + 1 / 2\<rfloor>;
          m = padStart0 (f + 1) (digits n);
          k = length m - f
      in if f = 0 then m else take k m @ ''.'' @ drop k m)"

definition toFixed :: "nat \<Rightarrow> jsnum \<Rightarrow> piece" where
  "toFixed f x =
     (case x of
        Fin q \<Rightarrow>
          if 10 ^ 21 \<le> \<bar>q\<bar> then N x
          else if q < 0 then S (''-'' @ fixed_digits f (- q))
          else S (fixed_digits f q)
      | _ \<Rightarrow> N x)"

subsection \<open>The snapshot (section 3 of the specification)\<close>

text \<open>Every property may be absent. A field name that two objects share is prefixed in
  the second one (\<open>p_\<close> for a pattern, \<open>vs_\<close> for the statistics of a venue).\<close>

record entrant =
  name :: "string option"
  national_rate :: "jsnum option"
  local_rate :: "jsnum option"
  motor_no :: "string option"

record condition =
  triggered :: "bool option"
  reason :: "string option"

record ticket =
  trifecta :: "string option"
  prob :: "jsnum option"
  amount :: "jsnum option"
  kimarite :: "string option"

record race =
  venue :: "string option"
  venue_name :: "string option"
  race_no :: "jsnum option"
  boat1_win_prob :: "jsnum option"
  boat1 :: "entrant option"
  cond1 :: "condition option"
  cond2 :: "condition option"
  tickets :: "ticket list option"

record pattern =
  p_trifecta :: "string option"
  p_prob :: "jsnum option"
  cum_prob :: "jsnum option"
  count :: "jsnum option"
  p_kimarite :: "string option"

record venue_stats =
  vs_name :: "string option"
  vs_total_races :: "jsnum option"
  filtered_races :: "jsnum option"
  top_patterns :: "pattern list option"

text \<open>\<open>venue_stats_summary\<close> is an object keyed by venue code: an association list, the
  first pair of a code being the one a lookup finds.\<close>

record snapshot =
  date :: "string option"
  total_races :: "jsnum option"
  chance_races :: "race list option"
  venue_stats_summary :: "(string \<times> venue_stats) list option"

subsection \<open>The page\<close>

text \<open>What a template writes for one race, one pattern, one ticket.\<close>

record race_card =
  onclick_selectRace :: nat
  race_venue :: jstext
  race_prob :: jstext
  card_name :: piece
  card_national :: piece
  card_local :: piece
  card_cond1 :: string
  card_cond2 :: string

record ranking_row =
  col_rank :: nat
  col_trifecta :: piece
  col_prob :: jstext
  col_cum :: jstext
  col_count :: piece
  col_kimarite :: piece
  prob_bar_fill_width :: jstext

record ticket_card =
  ticket_rank :: nat
  ticket_trifecta :: piece
  ticket_kimarite :: piece
  ticket_prob :: jstext
  ticket_amount :: piece

text \<open>The \<open>innerHTML\<close> of a container: what the page came with (\<open>Initial\<close>), or what one
  of the renderers assigned.\<close>

datatype html =
    Initial
  | EmptyState msg
  | RaceCards "race_card list"
  | Options "(string \<times> piece) list"
  | RankingTable "ranking_row list"
  | TicketCards "ticket_card list" piece

text \<open>The elements the script reads and writes, by their ids.\<close>

record doc =
  auth_overlay_hidden :: bool
  dashboard_hidden :: bool
  auth_error :: jstext
  auth_password :: string
  auth_password_focus :: bool
  header_date :: jstext
  stat_chance :: jstext
  stat_total :: jstext
  stat_lowest :: jstext
  stat_tickets :: jstext
  alert_banner_hidden :: bool
  alert_text :: jstext
  chance_races_html :: html
  venue_select_html :: html
  venue_select_value :: string
  venue_select_listeners :: nat
  ranking_table :: html
  ticket_list :: html

text \<open>The state of the script: the module variable \<open>currentData\<close>, the item
  \<open>blitzboat_auth\<close> of the session storage, the page, and the number of timers set to
  clear the error message.\<close>

record state =
  currentData :: "snapshot option"
  blitzboat_auth :: "string option"
  doc :: doc
  error_timers :: nat

datatype error = TypeError

text \<open>A property interpolated into a template: \<open>undefined\<close> prints as that word.\<close>

definition interp_str :: "string option \<Rightarrow> piece" where
  "interp_str v = (case v of None \<Rightarrow> S ''undefined'' | Some s \<Rightarrow> S s)"

definition interp_num :: "jsnum option \<Rightarrow> piece" where
  "interp_num v = (case v of None \<Rightarrow> S ''undefined'' | Some x \<Rightarrow> N x)"

subsection \<open>Configuration and the clock\<close>

definition AUTH_SECRET :: string where
  "AUTH_SECRET = ''blitzboat2026''"

definition DATA_PATH :: string where
  "DATA_PATH = ''./data/''"

text \<open>\<open>new Date()\<close>: the calendar date of the instant, in UTC (what \<open>toISOString\<close>
  prints) and in local time (what \<open>getFullYear\<close>, \<open>getMonth\<close> and \<open>getDate\<close> return).
  Months count from 0. The script reads the clock several times in one handler; the
  model reads it once.\<close>

record jsdate =
  getUTCFullYear :: nat
  getUTCMonth :: nat
  getUTCDate :: nat
  getFullYear :: nat
  getMonth :: nat
  getDate :: nat

text \<open>\<open>d.toISOString().slice(0, 10)\<close>: the year has four digits up to 9999 and a sign
  and six digits beyond.\<close>

definition toISOString_slice10 :: "jsdate \<Rightarrow> string" where
  "toISOString_slice10 d =
     take 10
       ((if getUTCFullYear d \<le> 9999 then padStart0 4 (digits (getUTCFullYear d))
         else ''+'' @ padStart0 6 (digits (getUTCFullYear d)))
        @ ''-'' @ padStart0 2 (digits (getUTCMonth d + 1))
        @ ''-'' @ padStart0 2 (digits (getUTCDate d)))"

text \<open>\<open>s.replace(/-/g, '')\<close>.\<close>

definition remove_hyphens :: "string \<Rightarrow> string" where
  "remove_hyphens s = filter (\<lambda>c. c \<noteq> CHR ''-'') s"

subsection \<open>The renderers\<close>

text \<open>\<open>race.boat1 || {}\<close> and \<open>race.cond1 || {}\<close>: the object with no property.\<close>

definition no_entrant :: entrant where
  "no_entrant = \<lparr>name = None, national_rate = None, local_rate = None, motor_no = None\<rparr>"

definition no_condition :: condition where
  "no_condition = \<lparr>triggered = None, reason = None\<rparr>"

text \<open>The card of the race at index \<open>i\<close> (the body of the \<open>map\<close> in \<open>renderChanceRaces\<close>).\<close>

definition race_card_of :: "nat \<Rightarrow> race \<Rightarrow> race_card" where
  "race_card_of i r =
     (let b1 = (case boat1 r of None \<Rightarrow> no_entrant | Some b \<Rightarrow> b);
          winProb = toFixed 0 (js_mul (num_or (boat1_win_prob r) (Fin 0)) (Fin 100));
          c1 = (case cond1 r of None \<Rightarrow> no_condition | Some c \<Rightarrow> c);
          c2 = (case cond2 r of None \<Rightarrow> no_condition | Some c \<Rightarrow> c)
      in \<lparr>onclick_selectRace = i,
          race_venue =
            [S (str_or (venue_name r) []), S '' '',
             (case race_no r of None \<Rightarrow> S []
              | Some x \<Rightarrow> if x = Fin 0 \<or> x = NaN then S [] else N x),
             S ''R''],
          race_prob = [winProb, S ''%''],
          card_name =
            (case name b1 of None \<Rightarrow> M UnknownName
             | Some s \<Rightarrow> if s = [] then M UnknownName else S s),
          card_national = toFixed 2 (num_or (national_rate b1) (Fin 0)),
          card_local = toFixed 2 (num_or (local_rate b1) (Fin 0)),
          card_cond1 = str_or (reason c1) [],
          card_cond2 = str_or (reason c2) []\<rparr>)"

definition renderChanceRaces :: "race list \<Rightarrow> doc \<Rightarrow> doc" where
  "renderChanceRaces races d =
     (if length races = 0 then d\<lparr>chance_races_html := EmptyState NoChanceRaces\<rparr>
      else d\<lparr>chance_races_html :=
               RaceCards (map (\<lambda>(race, i). race_card_of i race)
                            (zip races [0 ..< length races]))\<rparr>)"

text \<open>\<open>Object.keys(statsMap)\<close>: every key once.\<close>

definition Object_keys :: "(string \<times> 'v) list \<Rightarrow> string list" where
  "Object_keys m = remdups (map fst m)"

text \<open>\<open>statsMap[jcd]\<close>: the object's own property, or else what it inherits from
  \<open>Object.prototype\<close>, a function or object that is truthy and has none of the
  properties of a venue.\<close>

datatype 'v property = Own 'v | Inherited | Missing

definition Object_prototype_names :: "string list" where
  "Object_prototype_names =
     [''constructor'', ''hasOwnProperty'', ''isPrototypeOf'', ''propertyIsEnumerable'',
      ''toLocaleString'', ''toString'', ''valueOf'', ''__proto__'',
      ''__defineGetter__'', ''__defineSetter__'', ''__lookupGetter__'', ''__lookupSetter__'']"

definition get_property :: "(string \<times> 'v) list \<Rightarrow> string \<Rightarrow> 'v property" where
  "get_property m k =
     (case map_of m k of
        Some v \<Rightarrow> Own v
      | None \<Rightarrow> if k \<in> set Object_prototype_names then Inherited else Missing)"

text \<open>The drop-down. Its options are those of the markup last assigned to it (the
  options the page came with are not known, and none is assumed). Assigning its markup
  leaves the first option, the placeholder, selected, so that its value reads as the
  empty string. Assigning a value selects the first option of that value; when there is
  none, no option is selected and the value reads as the empty string. A venue code is
  taken to be plain text, free of the characters that end or escape an attribute value, so
  that the value of an option is the code written into it.\<close>

definition option_values :: "html \<Rightarrow> string list" where
  "option_values h = (case h of Options os \<Rightarrow> map fst os | _ \<Rightarrow> [])"

definition assign_select_value :: "string \<Rightarrow> doc \<Rightarrow> doc" where
  "assign_select_value v d =
     d\<lparr>venue_select_value := (if v \<in> set (option_values (venue_select_html d)) then v else [])\<rparr>"

text \<open>\<open>renderVenueSelector\<close>: the placeholder option, then one option per venue code in
  sorted order, labelled by the venue's name, or by the code when the name is absent or
  empty. The new markup leaves the placeholder selected. Each call adds one more change
  listener to the drop-down.\<close>

definition renderVenueSelector :: "(string \<times> venue_stats) list \<Rightarrow> doc \<Rightarrow> doc" where
  "renderVenueSelector statsMap d =
     (let venues = sort (Object_keys statsMap)
      in d\<lparr>venue_select_html :=
             Options (([], M SelectVenue) #
               map (\<lambda>jcd.
                     (jcd, S (str_or (case map_of statsMap jcd of None \<Rightarrow> None
                                      | Some v \<Rightarrow> vs_name v) jcd)))
                   venues),
           venue_select_value := [],
           venue_select_listeners := venue_select_listeners d + 1\<rparr>)"

text \<open>One row of the ranking table (the body of the \<open>map\<close> in \<open>renderVenueRanking\<close>).\<close>

definition ranking_row_of :: "jsnum \<Rightarrow> nat \<Rightarrow> pattern \<Rightarrow> ranking_row" where
  "ranking_row_of maxProb i p =
     \<lparr>col_rank = i + 1,
      col_trifecta = interp_str (p_trifecta p),
      col_prob = [toFixed 2 (js_mul (to_number (p_prob p)) (Fin 100)), S ''%''],
      col_cum = [toFixed 1 (js_mul (to_number (cum_prob p)) (Fin 100)), S ''%''],
      col_count = interp_num (count p),
      col_kimarite = interp_str (p_kimarite p),
      prob_bar_fill_width =
        [toFixed 0 (js_mul (js_div (to_number (p_prob p)) maxProb) (Fin 100)), S ''%'']\<rparr>"

text \<open>\<open>renderVenueRanking(jcd)\<close>; \<open>jcd\<close> is absent when the caller passes a race's
  missing \<open>venue\<close>. An inherited property passes the first test and has no
  \<open>top_patterns\<close>.\<close>

definition renderVenueRanking :: "string option \<Rightarrow> state \<Rightarrow> state" where
  "renderVenueRanking jcd st =
     (let stats =
            (case jcd of None \<Rightarrow> Missing
             | Some c \<Rightarrow>
                 if c = [] then Missing
                 else (case currentData st of None \<Rightarrow> Missing
                       | Some data \<Rightarrow>
                           (case venue_stats_summary data of None \<Rightarrow> Missing
                            | Some m \<Rightarrow> get_property m c)))
      in case stats of
           Missing \<Rightarrow> st\<lparr>doc := (doc st)\<lparr>ranking_table := EmptyState NoData\<rparr>\<rparr>
         | Inherited \<Rightarrow> st\<lparr>doc := (doc st)\<lparr>ranking_table := EmptyState NoRanking\<rparr>\<rparr>
         | Own v \<Rightarrow>
             (let patterns = (case top_patterns v of None \<Rightarrow> [] | Some ps \<Rightarrow> ps)
              in if length patterns = 0
                 then st\<lparr>doc := (doc st)\<lparr>ranking_table := EmptyState NoRanking\<rparr>\<rparr>
                 else
                   (let maxProb = Math_max (map (\<lambda>p. to_number (p_prob p)) patterns)
                    in st\<lparr>doc := (doc st)\<lparr>ranking_table :=
                          RankingTable (map (\<lambda>(p, i). ranking_row_of maxProb i p)
                                          (zip patterns [0 ..< length patterns]))\<rparr>\<rparr>)))"

text \<open>The cards of the tickets from rank \<open>i + 1\<close> on. \<open>t.amount.toLocaleString()\<close>
  throws a TypeError when \<open>amount\<close> is absent, and the first such ticket ends the
  template.\<close>

fun ticket_cards :: "nat \<Rightarrow> ticket list \<Rightarrow> error + ticket_card list" where
  "ticket_cards i [] = Inr []"
| "ticket_cards i (t # ts) =
     (case amount t of
        None \<Rightarrow> Inl TypeError
      | Some a \<Rightarrow>
          (case ticket_cards (Suc i) ts of
             Inl e \<Rightarrow> Inl e
           | Inr cs \<Rightarrow>
               Inr (\<lparr>ticket_rank = i + 1,
                     ticket_trifecta = interp_str (trifecta t),
                     ticket_kimarite = interp_str (kimarite t),
                     ticket_prob = [toFixed 1 (js_mul (to_number (prob t)) (Fin 100)), S ''%''],
                     ticket_amount = Loc a\<rparr> # cs)))"

text \<open>\<open>renderTickets(tickets, venueName, raceNo)\<close>. The exception leaves the page as it
  was: the assignment to \<open>innerHTML\<close> comes after the template.\<close>

definition renderTickets ::
  "ticket list option \<Rightarrow> string option \<Rightarrow> jsnum option \<Rightarrow> state \<Rightarrow> error + state" where
  "renderTickets tks venueName raceNo st =
     (case tks of
        None \<Rightarrow> Inr (st\<lparr>doc := (doc st)\<lparr>ticket_list := EmptyState NoTickets\<rparr>\<rparr>)
      | Some ts \<Rightarrow>
          if length ts = 0
          then Inr (st\<lparr>doc := (doc st)\<lparr>ticket_list := EmptyState NoTickets\<rparr>\<rparr>)
          else
            (let total = foldl (\<lambda>s t. js_add s (to_number (amount t))) (Fin 0) ts
             in case ticket_cards 0 ts of
                  Inl e \<Rightarrow> Inl e
                | Inr cs \<Rightarrow>
                    Inr (st\<lparr>doc := (doc st)\<lparr>ticket_list := TicketCards cs (Loc total)\<rparr>\<rparr>)))"

text \<open>\<open>renderDashboard(data)\<close>.\<close>

definition renderDashboard :: "snapshot \<Rightarrow> state \<Rightarrow> state" where
  "renderDashboard data st =
     (let chanceRaces = (case chance_races data of None \<Rightarrow> [] | Some rs \<Rightarrow> rs);
          totalRaces = num_or (total_races data) (Fin 0);
          d1 = (doc st)\<lparr>stat_chance := [S (digits (length chanceRaces))],
                         stat_total := [N totalRaces]\<rparr>;
          d2 =
            (if length chanceRaces > 0 then
               (let lowest = Math_min (map (\<lambda>r. num_or (boat1_win_prob r) (Fin 1)) chanceRaces);
                    totalTickets =
                      foldl (\<lambda>sum r. sum + (case tickets r of None \<Rightarrow> 0 | Some ts \<Rightarrow> length ts))
                        0 chanceRaces
                in d1\<lparr>stat_lowest := [toFixed 0 (js_mul lowest (Fin 100)), S ''%''],
                      stat_tickets := [S (digits totalTickets)],
                      alert_banner_hidden := False,
                      alert_text :=
                        [M AlertHead, S (digits (length chanceRaces)), M AlertMid,
                         toFixed 0 (js_mul lowest (Fin 100)), S ''%'']\<rparr>)
             else d1);
          d3 = renderChanceRaces chanceRaces d2;
          d4 = renderVenueSelector
                 (case venue_stats_summary data of None \<Rightarrow> [] | Some m \<Rightarrow> m) d3
      in st\<lparr>currentData := Some data, doc := d4\<rparr>)"

text \<open>\<open>selectRace(index)\<close>. The drop-down exists on the page, so the test of
  \<open>venueSelect\<close> succeeds.\<close>

definition selectRace :: "int \<Rightarrow> state \<Rightarrow> error + state" where
  "selectRace index st =
     (case currentData st of
        None \<Rightarrow> Inr st
      | Some data \<Rightarrow>
          (case chance_races data of
             None \<Rightarrow> Inr st
           | Some rs \<Rightarrow>
               if index < 0 \<or> int (length rs) \<le> index then Inr st
               else
                 (let r = rs ! nat index;
                      shown =
                        (case tickets r of
                           None \<Rightarrow> Inr st
                         | Some ts \<Rightarrow> renderTickets (Some ts) (venue_name r) (race_no r) st)
                  in case shown of
                       Inl e \<Rightarrow> Inl e
                     | Inr st1 \<Rightarrow>
                         Inr (renderVenueRanking (venue r)
                                (st1\<lparr>doc := assign_select_value (str_or (venue r) [])
                                               (doc st1)\<rparr>)))))"

text \<open>The change listener of the drop-down, once the user has chosen the option of
  value \<open>v\<close>.\<close>

definition venue_change :: "string \<Rightarrow> state \<Rightarrow> state" where
  "venue_change v st =
     renderVenueRanking (Some v) (st\<lparr>doc := (doc st)\<lparr>venue_select_value := v\<rparr>\<rparr>)"

subsection \<open>The demo data\<close>

text \<open>The Japanese strings of the demo data, as their UTF-8 bytes. The amounts and
  counts are integers; the probabilities and rates are decimal literals.\<close>

definition kiryu :: string where
  "kiryu = [CHR 0xE6, CHR 0xA1, CHR 0x90, CHR 0xE7, CHR 0x94, CHR 0x9F]"

definition fukuoka :: string where
  "fukuoka = [CHR 0xE7, CHR 0xA6, CHR 0x8F, CHR 0xE5, CHR 0xB2, CHR 0xA1]"

definition sample_senshu :: string where
  "sample_senshu =
     [CHR 0xE3, CHR 0x82, CHR 0xB5, CHR 0xE3, CHR 0x83, CHR 0xB3, CHR 0xE3, CHR 0x83,
     CHR 0x97, CHR 0xE3, CHR 0x83, CHR 0xAB, CHR 0xE9, CHR 0x81, CHR 0xB8, CHR 0xE6, CHR
     0x89, CHR 0x8B]"

definition makuri :: string where
  "makuri = [CHR 0xE3, CHR 0x81, CHR 0xBE, CHR 0xE3, CHR 0x81, CHR 0x8F, CHR 0xE3, CHR 0x82,
     CHR 0x8A]"

definition makurizashi :: string where
  "makurizashi = makuri @ [CHR 0xE5, CHR 0xB7, CHR 0xAE, CHR 0xE3, CHR 0x81, CHR 0x97]"

definition zenkoku_shoritsu :: string where
  "zenkoku_shoritsu =
     [CHR 0xE5, CHR 0x85, CHR 0xA8, CHR 0xE5, CHR 0x9B, CHR 0xBD, CHR 0xE5, CHR 0x8B,
     CHR 0x9D, CHR 0xE7, CHR 0x8E, CHR 0x87]"

definition mk_ticket :: "string \<Rightarrow> rat \<Rightarrow> rat \<Rightarrow> string \<Rightarrow> ticket" where
  "mk_ticket tri p a k =
     \<lparr>trifecta = Some tri, prob = Some (lit p), amount = Some (Fin a), kimarite = Some k\<rparr>"

definition mk_pattern :: "string \<Rightarrow> rat \<Rightarrow> rat \<Rightarrow> rat \<Rightarrow> string \<Rightarrow> pattern" where
  "mk_pattern tri p c n k =
     \<lparr>p_trifecta = Some tri, p_prob = Some (lit p), cum_prob = Some (lit c),
      count = Some (Fin n), p_kimarite = Some k\<rparr>"

definition demo_tickets :: "ticket list" where
  "demo_tickets =
     [mk_ticket ''2-3-4'' (0.082) 6300 makuri,
      mk_ticket ''3-2-4'' (0.065) 5000 makurizashi,
      mk_ticket ''4-2-3'' (0.055) 4200 makuri,
      mk_ticket ''2-4-3'' (0.048) 3700 makuri,
      mk_ticket ''3-4-2'' (0.042) 3200 makurizashi,
      mk_ticket ''4-3-2'' (0.038) 2900 makuri,
      mk_ticket ''5-2-3'' (0.032) 2500 makuri,
      mk_ticket ''2-5-3'' (0.028) 2200 makuri]"

definition demo_race_1 :: race where
  "demo_race_1 =
     \<lparr>venue = Some ''01'', venue_name = Some kiryu, race_no = Some (Fin 5),
      boat1_win_prob = Some (lit 0.22),
      boat1 = Some \<lparr>name = Some (sample_senshu @ ''A''), national_rate = Some (lit 3.82),
                     local_rate = Some (lit 2.15), motor_no = Some ''45''\<rparr>,
      cond1 = Some \<lparr>triggered = Some True,
                     reason = Some (zenkoku_shoritsu @ '' 3.82 < 4.5'')\<rparr>,
      cond2 = Some \<lparr>triggered = Some True,
                     reason = Some ''avg(0.190) + std(0.015) = 0.205 > 0.18''\<rparr>,
      tickets = Some demo_tickets\<rparr>"

definition demo_race_2 :: race where
  "demo_race_2 =
     \<lparr>venue = Some ''22'', venue_name = Some fukuoka, race_no = Some (Fin 8),
      boat1_win_prob = Some (lit 0.28),
      boat1 = Some \<lparr>name = Some (sample_senshu @ ''B''), national_rate = Some (lit 4.15),
                     local_rate = Some (lit 2.30), motor_no = Some ''12''\<rparr>,
      cond1 = Some \<lparr>triggered = Some True,
                     reason = Some (zenkoku_shoritsu @ '' 4.15 < 4.5'')\<rparr>,
      cond2 = Some \<lparr>triggered = Some True,
                     reason = Some ''avg(0.185) + std(0.012) = 0.197 > 0.18''\<rparr>,
      tickets = Some []\<rparr>"

definition demo_venue_01 :: venue_stats where
  "demo_venue_01 =
     \<lparr>vs_name = Some kiryu, vs_total_races = Some (Fin 2160),
      filtered_races = Some (Fin 432),
      top_patterns = Some
        [mk_pattern ''2-3-4'' (0.082) (0.082) 35 makuri,
         mk_pattern ''3-2-4'' (0.065) (0.147) 28 makurizashi,
         mk_pattern ''4-2-3'' (0.055) (0.202) 24 makuri,
         mk_pattern ''2-4-3'' (0.048) (0.250) 21 makuri,
         mk_pattern ''3-4-2'' (0.042) (0.292) 18 makurizashi,
         mk_pattern ''4-3-2'' (0.038) (0.330) 16 makuri,
         mk_pattern ''5-2-3'' (0.032) (0.362) 14 makuri,
         mk_pattern ''2-5-3'' (0.028) (0.390) 12 makuri,
         mk_pattern ''3-5-2'' (0.025) (0.415) 11 makurizashi,
         mk_pattern ''4-5-2'' (0.022) (0.437) 10 makuri]\<rparr>"

definition demo_venue_22 :: venue_stats where
  "demo_venue_22 =
     \<lparr>vs_name = Some fukuoka, vs_total_races = Some (Fin 2100),
      filtered_races = Some (Fin 410),
      top_patterns = Some
        [mk_pattern ''3-2-4'' (0.075) (0.075) 31 makurizashi,
         mk_pattern ''2-3-4'' (0.068) (0.143) 28 makuri,
         mk_pattern ''4-3-2'' (0.052) (0.195) 21 makuri]\<rparr>"

definition getDemoData :: "jsdate \<Rightarrow> snapshot" where
  "getDemoData today =
     \<lparr>date = Some (remove_hyphens (toISOString_slice10 today)),
      total_races = Some (Fin 144),
      chance_races = Some [demo_race_1, demo_race_2],
      venue_stats_summary = Some [(''01'', demo_venue_01), (''22'', demo_venue_22)]\<rparr>"

subsection \<open>Loading the snapshot\<close>

text \<open>What \<open>fetch(url)\<close> gives: \<open>None\<close> when it throws, otherwise a response with its
  \<open>ok\<close> flag and what \<open>resp.json()\<close> gives (\<open>None\<close> when the body does not parse).
  The network is a function from the address to that outcome.\<close>

record response =
  ok :: bool
  json :: "snapshot option"

type_synonym network = "string \<Rightarrow> response option"

text \<open>The loop of \<open>loadDailyData\<close> over the candidate addresses, and the demo data
  after it.\<close>

fun try_urls :: "network \<Rightarrow> jsdate \<Rightarrow> string list \<Rightarrow> state \<Rightarrow> state" where
  "try_urls fetch today [] st = renderDashboard (getDemoData today) st"
| "try_urls fetch today (url # urls) st =
     (case fetch url of
        None \<Rightarrow> try_urls fetch today urls st
      | Some resp \<Rightarrow>
          if ok resp then
            (case json resp of
               None \<Rightarrow> try_urls fetch today urls st
             | Some data \<Rightarrow> renderDashboard data (st\<lparr>currentData := Some data\<rparr>))
          else try_urls fetch today urls st)"

definition daily_urls :: "jsdate \<Rightarrow> string list" where
  "daily_urls today =
     (let dateStr = digits (getFullYear today)
                    @ padStart0 2 (digits (getMonth today + 1))
                    @ padStart0 2 (digits (getDate today))
      in [DATA_PATH @ ''daily_'' @ dateStr @ ''.json'', DATA_PATH @ ''latest.json''])"

definition loadDailyData :: "network \<Rightarrow> jsdate \<Rightarrow> state \<Rightarrow> state" where
  "loadDailyData fetch today st = try_urls fetch today (daily_urls today) st"

definition initDashboard :: "network \<Rightarrow> jsdate \<Rightarrow> state \<Rightarrow> state" where
  "initDashboard fetch now st =
     loadDailyData fetch now
       (st\<lparr>doc := (doc st)\<lparr>header_date :=
              [S (digits (getFullYear now)), S ''/'',
               S (padStart0 2 (digits (getMonth now + 1))), S ''/'',
               S (padStart0 2 (digits (getDate now)))]\<rparr>\<rparr>)"

definition showDashboard :: "network \<Rightarrow> jsdate \<Rightarrow> state \<Rightarrow> state" where
  "showDashboard fetch now st =
     initDashboard fetch now
       (st\<lparr>doc := (doc st)\<lparr>auth_overlay_hidden := True, dashboard_hidden := False\<rparr>\<rparr>)"

subsection \<open>The daily password and the unlock form\<close>

text \<open>\<open>new TextEncoder().encode(raw)\<close>: UTF-8, for code units below 256.\<close>

definition encode :: "string \<Rightarrow> 8 word list" where
  "encode raw =
     concat (map (\<lambda>c. let n = (of_char c :: nat)
                       in if n < 128 then [of_nat n]
                          else [of_nat (192 + n div 64), of_nat (128 + n mod 64)]) raw)"

text \<open>\<open>crypto.subtle.digest('SHA-256', data)\<close> is the platform's: a parameter, from
  the bytes to the 256 bits of the digest. \<open>Uint8Array_from\<close> reads the 32 bytes of the
  buffer, the most significant first.\<close>

type_synonym digest = "8 word list \<Rightarrow> 256 word"

definition Uint8Array_from :: "256 word \<Rightarrow> 8 word list" where
  "Uint8Array_from h = map (\<lambda>i. ucast (drop_bit (8 * (31 - i)) h)) [0 ..< 32]"

definition hex_char :: "nat \<Rightarrow> char" where
  "hex_char n = ''0123456789abcdef'' ! n"

text \<open>\<open>b.toString(16)\<close> for a byte: one digit below 16, two from there.\<close>

definition toString16 :: "8 word \<Rightarrow> string" where
  "toString16 b =
     (if unat b < 16 then [hex_char (unat b)]
      else [hex_char (unat b div 16), hex_char (unat b mod 16)])"

definition generateDailyPassword :: "digest \<Rightarrow> jsdate \<Rightarrow> string" where
  "generateDailyPassword sha256 today =
     (let dateStr = remove_hyphens (toISOString_slice10 today);
          raw = dateStr @ AUTH_SECRET;
          hashArray = Uint8Array_from (sha256 (encode raw));
          hashHex = concat (map (\<lambda>b. padStart0 2 (toString16 b)) hashArray)
      in take 8 hashHex)"

text \<open>\<open>s.trim()\<close>: the white space and line terminators among the code units below 256
  are removed from both ends.\<close>

definition is_space :: "char \<Rightarrow> bool" where
  "is_space c = (of_char c \<in> {9, 10, 11, 12, 13, 32, 160 :: nat})"

definition trim :: "string \<Rightarrow> string" where
  "trim s = rev (dropWhile is_space (rev (dropWhile is_space s)))"

definition checkAuth :: "network \<Rightarrow> jsdate \<Rightarrow> state \<Rightarrow> state" where
  "checkAuth fetch now st =
     (let todayKey = toISOString_slice10 now
      in if blitzboat_auth st = Some todayKey then showDashboard fetch now st
         else st\<lparr>doc := (doc st)\<lparr>auth_overlay_hidden := False, dashboard_hidden := True\<rparr>\<rparr>)"

text \<open>The submit handler of the form \<open>auth-form\<close>.\<close>

definition auth_form_submit :: "digest \<Rightarrow> network \<Rightarrow> jsdate \<Rightarrow> state \<Rightarrow> state" where
  "auth_form_submit sha256 fetch now st =
     (let input = trim (auth_password (doc st));
          expected = generateDailyPassword sha256 now
      in if input = expected then
           showDashboard fetch now (st\<lparr>blitzboat_auth := Some (toISOString_slice10 now)\<rparr>)
         else
           st\<lparr>doc := (doc st)\<lparr>auth_error := [M WrongPassword], auth_password := [],
                               auth_password_focus := True\<rparr>,
              error_timers := error_timers st + 1\<rparr>)"

section \<open>The statements of the specification, and sample inputs\<close>

subsection \<open>The page as loaded\<close>

text \<open>Modelled from the spec: the markup of the page (index.html) is not among the
  sources. Section 4.2 has the page show the password prompt first, and section 4.4 has
  the alert banner stay hidden until a render reveals it; the texts are empty and the
  containers hold their initial markup.\<close>

definition fresh_page :: doc where
  "fresh_page =
     \<lparr>auth_overlay_hidden = False, dashboard_hidden = True, auth_error = [],
      auth_password = [], auth_password_focus = False, header_date = [],
      stat_chance = [], stat_total = [], stat_lowest = [], stat_tickets = [],
      alert_banner_hidden = True, alert_text = [],
      chance_races_html = Initial, venue_select_html = Initial, venue_select_value = [],
      venue_select_listeners = 0, ranking_table = Initial, ticket_list = Initial\<rparr>"

definition fresh_state :: state where
  "fresh_state =
     \<lparr>currentData = None, blitzboat_auth = None, doc = fresh_page, error_timers = 0\<rparr>"

text \<open>A race with nothing but a win probability, a snapshot with nothing but its
  chance races, and a day.\<close>

definition race_with_prob :: "jsnum option \<Rightarrow> race" where
  "race_with_prob p =
     \<lparr>venue = None, venue_name = None, race_no = None, boat1_win_prob = p,
      boat1 = None, cond1 = None, cond2 = None, tickets = None\<rparr>"

definition snapshot_of :: "race list \<Rightarrow> snapshot" where
  "snapshot_of rs =
     \<lparr>date = None, total_races = None, chance_races = Some rs, venue_stats_summary = None\<rparr>"

definition sample_day :: jsdate where
  "sample_day =
     \<lparr>getUTCFullYear = 2026, getUTCMonth = 2, getUTCDate = 9,
      getFullYear = 2026, getMonth = 2, getDate = 10\<rparr>"

subsection \<open>The lowest win probability\<close>

text \<open>The probability of a race is well formed when it is absent or finite.\<close>

definition prob_finite :: "race \<Rightarrow> bool" where
  "prob_finite r =
     (case boat1_win_prob r of None \<Rightarrow> True | Some (Fin q) \<Rightarrow> True | Some _ \<Rightarrow> False)"

text \<open>What a race contributes to the minimum in the words of the specification: its
  probability, and 1 when that is absent.\<close>

definition spec_contribution :: "race \<Rightarrow> rat" where
  "spec_contribution r = (case boat1_win_prob r of Some (Fin q) \<Rightarrow> q | _ \<Rightarrow> 1)"

definition spec_lowest :: "race list \<Rightarrow> rat" where
  "spec_lowest rs = Min (set (map spec_contribution rs))"

text \<open>What it contributes in the script: 1 also when the probability is zero.\<close>

definition code_contribution :: "race \<Rightarrow> rat" where
  "code_contribution r =
     (case boat1_win_prob r of Some (Fin q) \<Rightarrow> if q = 0 then 1 else q | _ \<Rightarrow> 1)"

text \<open>The text of \<open>(q * 100).toFixed(0)\<close> followed by the percent sign, and the text
  of the integer nearest to \<open>d\<close> followed by the percent sign.\<close>

definition percent_text :: "rat \<Rightarrow> jstext" where
  "percent_text q = [toFixed 0 (js_mul (Fin q) (Fin 100)), S ''%'']"

definition nearest_percent :: "rat \<Rightarrow> jstext" where
  "nearest_percent d = [S (digits (nat \<lfloor>d + 1 / 2\<rfloor>)), S ''%'']"

subsection \<open>What the dashboard shows\<close>

text \<open>The visual state that \<open>renderDashboard\<close> is responsible for: the four statistics,
  the banner and its text, the list of races, and the options and the value of the venue
  selector.\<close>

record visual =
  v_stat_chance :: jstext
  v_stat_total :: jstext
  v_stat_lowest :: jstext
  v_stat_tickets :: jstext
  v_banner_hidden :: bool
  v_alert_text :: jstext
  v_races :: html
  v_venues :: html
  v_venue_value :: string

definition visual_of :: "state \<Rightarrow> visual" where
  "visual_of st =
     \<lparr>v_stat_chance = stat_chance (doc st), v_stat_total = stat_total (doc st),
      v_stat_lowest = stat_lowest (doc st), v_stat_tickets = stat_tickets (doc st),
      v_banner_hidden = alert_banner_hidden (doc st), v_alert_text = alert_text (doc st),
      v_races = chance_races_html (doc st), v_venues = venue_select_html (doc st),
      v_venue_value = venue_select_value (doc st)\<rparr>"

subsection \<open>The loader\<close>

text \<open>What a candidate address yields: the snapshot, when the read succeeds with a
  success status and a body that parses. A candidate has failed when \<open>fetch\<close> throws,
  the status is not a success, or the body does not parse.\<close>

definition candidate_data :: "network \<Rightarrow> string \<Rightarrow> snapshot option" where
  "candidate_data fetch url =
     (case fetch url of None \<Rightarrow> None | Some resp \<Rightarrow> if ok resp then json resp else None)"

definition candidate_failed :: "network \<Rightarrow> string \<Rightarrow> bool" where
  "candidate_failed fetch url =
     (case fetch url of None \<Rightarrow> True | Some resp \<Rightarrow> \<not> ok resp \<or> json resp = None)"

text \<open>A date in the format \<open>YYYYMMDD\<close>.\<close>

definition yyyymmdd :: "nat \<Rightarrow> nat \<Rightarrow> nat \<Rightarrow> string" where
  "yyyymmdd y m d = padStart0 4 (digits y) @ padStart0 2 (digits m) @ padStart0 2 (digits d)"

text \<open>Two networks: one where every read throws, one where only the fixed address
  answers.\<close>

definition no_network :: network where
  "no_network = (\<lambda>url. None)"

definition latest_only :: network where
  "latest_only =
     (\<lambda>url. if url = ''./data/latest.json''
            then Some \<lparr>ok = True, json = Some (snapshot_of [race_with_prob None])\<rparr>
            else Some \<lparr>ok = False, json = None\<rparr>)"

subsection \<open>The password in the words of the specification\<close>

text \<open>A calendar date whose year has at most four digits.\<close>

definition valid_utc_date :: "jsdate \<Rightarrow> bool" where
  "valid_utc_date d =
     (getUTCFullYear d \<le> 9999 \<and> getUTCMonth d < 12 \<and> 1 \<le> getUTCDate d \<and> getUTCDate d \<le> 31)"

text \<open>Bytes in lowercase hexadecimal, two digits each.\<close>

definition hex_lower :: "8 word list \<Rightarrow> string" where
  "hex_lower bs = concat (map (\<lambda>b. [hex_char (unat b div 16), hex_char (unat b mod 16)]) bs)"

text \<open>Section 4.1: the first 8 characters of the lowercase hexadecimal digest of the
  UTF-8 bytes of the date, formatted \<open>YYYYMMDD\<close>, followed by the secret.\<close>

definition derivedPassword_spec :: "digest \<Rightarrow> nat \<Rightarrow> nat \<Rightarrow> nat \<Rightarrow> string" where
  "derivedPassword_spec sha256 y m d =
     take 8 (hex_lower (Uint8Array_from (sha256 (encode (yyyymmdd y m d @ AUTH_SECRET)))))"

text \<open>The UTC calendar date, \<open>YYYY-MM-DD\<close>.\<close>

definition utc_date_key :: "jsdate \<Rightarrow> string" where
  "utc_date_key d =
     padStart0 4 (digits (getUTCFullYear d)) @ ''-'' @ padStart0 2 (digits (getUTCMonth d + 1))
       @ ''-'' @ padStart0 2 (digits (getUTCDate d))"

text \<open>Section 4.2: the local calendar date, \<open>YYYY-MM-DD\<close>.\<close>

definition local_date_key :: "jsdate \<Rightarrow> string" where
  "local_date_key d =
     padStart0 4 (digits (getFullYear d)) @ ''-'' @ padStart0 2 (digits (getMonth d + 1))
       @ ''-'' @ padStart0 2 (digits (getDate d))"

text \<open>Two digests to evaluate with: a constant one, and one whose first byte is the
  eighth byte of its input (the last digit of the date); and the state once the user has
  typed \<open>s\<close> into the password field.\<close>

definition day_digit_digest :: digest where
  "day_digit_digest =
     (\<lambda>bs. case drop 7 bs of [] \<Rightarrow> 0 | b # rest \<Rightarrow> push_bit 248 (ucast b))"

definition sample_digest :: digest where
  "sample_digest =
     (\<lambda>bs. 0x0123456789abcdeffedcba98765432100123456789abcdeffedcba9876543210)"

definition typed :: "string \<Rightarrow> state \<Rightarrow> state" where
  "typed s st = st\<lparr>doc := (doc st)\<lparr>auth_password := s\<rparr>\<rparr>"

subsection \<open>Selecting a race\<close>

text \<open>A ticket whose \<open>amount\<close> is missing, a race with given tickets, and the list of
  tickets in which every \<open>amount\<close> is present.\<close>

definition ticket_without_amount :: ticket where
  "ticket_without_amount =
     \<lparr>trifecta = Some ''2-3-4'', prob = Some (lit 0.082), amount = None,
      kimarite = Some makuri\<rparr>"

definition race_with_tickets :: "ticket list \<Rightarrow> race" where
  "race_with_tickets ts = (race_with_prob (Some (lit 0.22)))\<lparr>tickets := Some ts\<rparr>"

definition amounts_present :: "ticket list \<Rightarrow> bool" where
  "amounts_present ts = list_all (\<lambda>t. amount t \<noteq> None) ts"

text \<open>A venue code that markup leaves as it is.\<close>

definition plain_code :: "string \<Rightarrow> bool" where
  "plain_code s = list_all (\<lambda>c. c \<noteq> CHR 0x22 \<and> c \<noteq> CHR ''&'' \<and> 32 \<le> (of_char c :: nat)) s"

text \<open>The number of cards and the total of a ticket list.\<close>

definition cards_and_total :: "html \<Rightarrow> (nat \<times> piece) option" where
  "cards_and_total h = (case h of TicketCards cs t \<Rightarrow> Some (length cs, t) | _ \<Rightarrow> None)"

text \<open>What the ticket list and the drop-down show after a call that may have thrown.\<close>

definition shown_tickets :: "error + state \<Rightarrow> html option" where
  "shown_tickets r = (case r of Inl e \<Rightarrow> None | Inr st \<Rightarrow> Some (ticket_list (doc st)))"

definition selected_venue :: "error + state \<Rightarrow> string option" where
  "selected_venue r =
     (case r of Inl e \<Rightarrow> None | Inr st \<Rightarrow> Some (venue_select_value (doc st)))"

text \<open>The page after the demo data; a snapshot whose second race has no \<open>tickets\<close>
  property, and the page after its first race has been selected.\<close>

definition demo_state :: state where
  "demo_state = renderDashboard (getDemoData sample_day) fresh_state"

definition one_without_tickets :: snapshot where
  "one_without_tickets = snapshot_of [demo_race_1, race_with_prob (Some (lit 0.3))]"

definition stale_state :: state where
  "stale_state =
     (case selectRace 0 (renderDashboard one_without_tickets fresh_state) of
        Inl e \<Rightarrow> fresh_state
      | Inr st \<Rightarrow> st)"

subsection \<open>The ranking of a venue\<close>

definition rows_of :: "html \<Rightarrow> ranking_row list" where
  "rows_of h = (case h of RankingTable rows \<Rightarrow> rows | _ \<Rightarrow> [])"

text \<open>The probability of a pattern, the lists whose probabilities are all present and
  finite, and the patterns the current snapshot has for a venue code.\<close>

definition pattern_prob_of :: "pattern \<Rightarrow> rat" where
  "pattern_prob_of p = (case p_prob p of Some (Fin q) \<Rightarrow> q | _ \<Rightarrow> 0)"

definition probs_finite :: "pattern list \<Rightarrow> bool" where
  "probs_finite ps =
     list_all (\<lambda>p. case p_prob p of Some (Fin q) \<Rightarrow> True | _ \<Rightarrow> False) ps"

definition venue_patterns :: "state \<Rightarrow> string \<Rightarrow> pattern list option" where
  "venue_patterns st jcd =
     (case currentData st of
        None \<Rightarrow> None
      | Some data \<Rightarrow>
          (case venue_stats_summary data of
             None \<Rightarrow> None
           | Some m \<Rightarrow> (case map_of m jcd of None \<Rightarrow> None | Some v \<Rightarrow> top_patterns v)))"

text \<open>The text of \<open>(q / m * 100).toFixed(0)\<close> followed by the percent sign.\<close>

definition bar_text :: "rat \<Rightarrow> rat \<Rightarrow> jstext" where
  "bar_text q m = [toFixed 0 (js_mul (js_div (Fin q) (Fin m)) (Fin 100)), S ''%'']"

text \<open>The page after a snapshot whose only venue has two patterns, of probabilities
  0.08 and 0.022.\<close>

definition two_pattern_state :: state where
  "two_pattern_state =
     renderDashboard
       \<lparr>date = None, total_races = None, chance_races = None,
        venue_stats_summary = Some
          [(''07'', \<lparr>vs_name = None, vs_total_races = None, filtered_races = None,
                     top_patterns = Some [mk_pattern ''1-2-3'' 0.08 0.08 8 makuri,
                                          mk_pattern ''1-3-2'' 0.022 0.102 2 makuri]\<rparr>)]\<rparr>
       fresh_state"

text \<open>The page after a snapshot whose only venue has one pattern, of probability 0.\<close>

definition zero_prob_state :: state where
  "zero_prob_state =
     renderDashboard
       \<lparr>date = None, total_races = None, chance_races = None,
        venue_stats_summary = Some
          [(''01'', \<lparr>vs_name = None, vs_total_races = None, filtered_races = None,
                     top_patterns = Some [mk_pattern ''1-2-3'' 0 0 0 makuri]\<rparr>)]\<rparr>
       fresh_state"

section \<open>Theorems\<close>

subsection \<open>Digits, rounding, and the minimum of finite numbers\<close>

lemma digits_lt_10: "n < 10 \<Longrightarrow> digits n = [digit_char n]"
  by (simp add: digits.simps)

lemma digits_ge_10: "10 \<le> n \<Longrightarrow> digits n = digits (n div 10) @ [digit_char (n mod 10)]"
  using digits.simps [of n] by simp

lemma digits_not_empty: "digits n \<noteq> []"
  by (cases "n < 10") (simp_all add: digits_lt_10 digits_ge_10)

text \<open>\<open>toFixed(0)\<close> of a double that is not negative and below \<open>10^21\<close> is the nearest
  integer, the larger one of two.\<close>

lemma toFixed0_nearest:
  assumes "0 \<le> d" and "d < 10 ^ 21"
  shows "toFixed 0 (Fin d) = S (digits (nat \<lfloor>d + 1 / 2\<rfloor>))"
proof -
  have "padStart0 1 (digits n) = digits n" for n
    using digits_not_empty [of n] by (cases "digits n") (simp_all add: padStart0_def)
  then have "fixed_digits 0 d = digits (nat \<lfloor>d + 1 / 2\<rfloor>)"
    by (simp add: fixed_digits_def Let_def)
  with assms show ?thesis
    by (simp add: toFixed_def)
qed

lemma round64_zero: "round64 0 = Fin 0"
  by (simp add: round64_def)

lemma round64_one: "round64 1 = Fin 1"
  by code_simp

lemma round64_hundred: "round64 100 = Fin 100"
  by code_simp

lemma foldl_min2_Fin: "foldl min2 (Fin a) (map Fin qs) = Fin (Min (insert a (set qs)))"
proof (induction qs arbitrary: a)
  case Nil
  show ?case by simp
next
  case (Cons q qs)
  have "Min (insert (min a q) (set qs)) = Min (insert a (insert q (set qs)))"
    by (cases "set qs = {}") (simp_all add: min.assoc)
  with Cons show ?case by simp
qed

lemma Math_min_Fin: "qs \<noteq> [] \<Longrightarrow> Math_min (map Fin qs) = Fin (Min (set qs))"
  by (cases qs) (simp_all add: Math_min_def foldl_min2_Fin)

lemma num_or_contribution:
  "prob_finite r \<Longrightarrow> num_or (boat1_win_prob r) (Fin 1) = Fin (code_contribution r)"
  by (auto simp: prob_finite_def num_or_def code_contribution_def
           split: option.splits jsnum.splits)

lemma Math_min_contributions:
  assumes "rs \<noteq> []" and "\<forall>r \<in> set rs. prob_finite r"
  shows "Math_min (map (\<lambda>r. num_or (boat1_win_prob r) (Fin 1)) rs)
           = Fin (Min (set (map code_contribution rs)))"
proof -
  have "map (\<lambda>r. num_or (boat1_win_prob r) (Fin 1)) rs = map Fin (map code_contribution rs)"
    using assms(2) by (simp add: num_or_contribution)
  moreover have "map code_contribution rs \<noteq> []"
    using assms(1) by simp
  ultimately show ?thesis
    using Math_min_Fin by metis
qed

subsection \<open>What \<open>renderDashboard\<close> writes\<close>

lemma renderDashboard_doc_nonempty:
  assumes "chance_races s = Some rs" and "rs \<noteq> []"
  shows "stat_lowest (doc (renderDashboard s st)) =
           [toFixed 0 (js_mul (Math_min (map (\<lambda>r. num_or (boat1_win_prob r) (Fin 1)) rs))
                         (Fin 100)), S ''%'']"
  using assms
  by (simp add: renderDashboard_def Let_def renderChanceRaces_def renderVenueSelector_def)

text \<open>
  Claim C1, as amended. For every snapshot whose \<open>chance_races\<close> is not empty and whose
  win probabilities are finite where present, the lowest win probability that
  \<open>renderDashboard\<close> displays is that of the minimum over the races of what each
  contributes: its \<open>boat1_win_prob\<close>, and 1.0 when that is absent or zero. The text is
  \<open>(lowest * 100).toFixed(0)\<close> and the percent sign: when the double nearest to the
  product is \<open>d\<close>, not negative and below \<open>10^21\<close>, it is the integer nearest to \<open>d\<close>.
\<close>

theorem lowest_is_min_of_contributions:
  assumes "chance_races s = Some rs" and "rs \<noteq> []" and "\<forall>r \<in> set rs. prob_finite r"
  shows "stat_lowest (doc (renderDashboard s st)) =
           percent_text (Min (set (map code_contribution rs)))
    \<and> (\<forall>d. js_mul (Fin (Min (set (map code_contribution rs)))) (Fin 100) = Fin d
            \<and> 0 \<le> d \<and> d < 10 ^ 21 \<longrightarrow>
          stat_lowest (doc (renderDashboard s st)) = nearest_percent d)"
  using renderDashboard_doc_nonempty [OF assms(1,2)] Math_min_contributions [OF assms(2,3)]
  by (simp add: percent_text_def nearest_percent_def toFixed0_nearest)

theorem lowest_is_min_of_contributions_witness:
  "stat_lowest (doc (renderDashboard
       (snapshot_of [race_with_prob (Some (lit 0.22)), race_with_prob None]) fresh_state))
     = [S ''22'', S ''%'']
   \<and> stat_lowest (doc (renderDashboard
       (snapshot_of [race_with_prob (Some (lit 0.285))]) fresh_state))
     = [S ''28'', S ''%'']"
proof -
  define rs where "rs = [race_with_prob (Some (lit 0.22)), race_with_prob None]"
  define rs' where "rs' = [race_with_prob (Some (lit 0.285))]"
  have a: "chance_races (snapshot_of rs) = Some rs" "chance_races (snapshot_of rs') = Some rs'"
    by (simp_all add: snapshot_of_def)
  have b: "rs \<noteq> []" "rs' \<noteq> []"
    by (simp_all add: rs_def rs'_def)
  have c: "\<forall>r \<in> set rs. prob_finite r" "\<forall>r \<in> set rs'. prob_finite r"
    unfolding rs_def rs'_def by code_simp+
  have d: "percent_text (Min (set (map code_contribution rs))) = [S ''22'', S ''%'']"
    "percent_text (Min (set (map code_contribution rs'))) = [S ''28'', S ''%'']"
    unfolding rs_def rs'_def by code_simp+
  show ?thesis
    using lowest_is_min_of_contributions [OF a(1) b(1) c(1), of fresh_state]
      lowest_is_min_of_contributions [OF a(2) b(2) c(2), of fresh_state] d
    unfolding rs_def rs'_def by simp
qed

text \<open>
  Claim C1 as stated fails: with the probabilities 0.5 and 0 the minimum of
  \<open>boat1_win_prob\<close> is 0, and the page shows 50%.
\<close>

theorem lowest_min_counterexample:
  "stat_lowest (doc (renderDashboard
       (snapshot_of [race_with_prob (Some (Fin 0.5)), race_with_prob (Some (Fin 0))]) fresh_state))
     = [S ''50'', S ''%'']
   \<and> percent_text (spec_lowest [race_with_prob (Some (Fin 0.5)), race_with_prob (Some (Fin 0))])
     = [S ''0'', S ''%'']
   \<and> stat_lowest (doc (renderDashboard
       (snapshot_of [race_with_prob (Some (Fin 0.5)), race_with_prob (Some (Fin 0))]) fresh_state))
     \<noteq> percent_text (spec_lowest [race_with_prob (Some (Fin 0.5)), race_with_prob (Some (Fin 0))])"
  by code_simp

lemma toFixed0_zero: "toFixed 0 (Fin 0) = S ''0''"
  by code_simp

lemma toFixed0_hundred: "toFixed 0 (Fin 100) = S ''100''"
  by code_simp

lemma total_races_zero_absent:
  "doc (renderDashboard (s\<lparr>total_races := Some (Fin 0)\<rparr>) st)
     = doc (renderDashboard (s\<lparr>total_races := None\<rparr>) st)"
  by (simp add: renderDashboard_def Let_def num_or_def)

lemma race_no_zero_absent:
  "race_card_of i (r\<lparr>race_no := Some (Fin 0)\<rparr>) = race_card_of i (r\<lparr>race_no := None\<rparr>)"
  by (simp add: race_card_of_def)

lemma rates_zero_absent:
  "race_card_of i (r\<lparr>boat1 := Some (b\<lparr>national_rate := Some (Fin 0), local_rate := Some (Fin 0)\<rparr>)\<rparr>)
     = race_card_of i (r\<lparr>boat1 := Some (b\<lparr>national_rate := None, local_rate := None\<rparr>)\<rparr>)"
  by (simp add: race_card_of_def num_or_def)

lemma card_prob_zero_absent:
  "race_card_of i (r\<lparr>boat1_win_prob := Some (Fin 0)\<rparr>)
     = race_card_of i (r\<lparr>boat1_win_prob := None\<rparr>)"
  by (simp add: race_card_of_def num_or_def)

lemma card_prob_zero: "race_prob (race_card_of i (r\<lparr>boat1_win_prob := Some (Fin 0)\<rparr>)) = [S ''0'', S ''%'']"
  by (simp add: race_card_of_def Let_def num_or_def round64_zero toFixed0_zero)

lemma lowest_zero_in_list:
  "stat_lowest (doc (renderDashboard
       (s\<lparr>chance_races := Some (rs1 @ r\<lparr>boat1_win_prob := Some (Fin 0)\<rparr> # rs2)\<rparr>) st))
   = stat_lowest (doc (renderDashboard
       (s\<lparr>chance_races := Some (rs1 @ r\<lparr>boat1_win_prob := p\<rparr> # rs2)\<rparr>) st))"
  if "p = None \<or> p = Some (Fin 1)"
  using that
  by (auto simp add: renderDashboard_doc_nonempty [where rs = "rs1 @ r\<lparr>boat1_win_prob := q\<rparr> # rs2" for q] num_or_def)

lemma lowest_single_zero:
  "stat_lowest (doc (renderDashboard (snapshot_of [r\<lparr>boat1_win_prob := Some (Fin 0)\<rparr>]) st))
     = [S ''100'', S ''%'']"
  by (simp add: renderDashboard_doc_nonempty [where rs = "[r\<lparr>boat1_win_prob := Some (Fin 0)\<rparr>]"]
        snapshot_of_def num_or_def Math_min_def round64_hundred toFixed0_hundred)

text \<open>
  Claim C10. A default coercion takes a field that is zero as it takes one that is
  absent: \<open>total_races\<close>, \<open>race_no\<close>, the two rates of the entrant and the win
  probability of a race give the same page either way. A race whose \<open>boat1_win_prob\<close> is
  0 contributes 1.0 to the minimum of the dashboard, wherever it stands in the list (alone,
  it makes the lowest win probability 100%), and its card shows 0%.
\<close>

theorem zero_is_treated_as_absent:
  "num_or (Some (Fin 0)) d = num_or None d
   \<and> doc (renderDashboard (s\<lparr>total_races := Some (Fin 0)\<rparr>) st)
       = doc (renderDashboard (s\<lparr>total_races := None\<rparr>) st)
   \<and> race_card_of i (r\<lparr>race_no := Some (Fin 0)\<rparr>) = race_card_of i (r\<lparr>race_no := None\<rparr>)
   \<and> race_card_of i (r\<lparr>boat1 := Some (b\<lparr>national_rate := Some (Fin 0), local_rate := Some (Fin 0)\<rparr>)\<rparr>)
       = race_card_of i (r\<lparr>boat1 := Some (b\<lparr>national_rate := None, local_rate := None\<rparr>)\<rparr>)
   \<and> race_card_of i (r\<lparr>boat1_win_prob := Some (Fin 0)\<rparr>)
       = race_card_of i (r\<lparr>boat1_win_prob := None\<rparr>)
   \<and> stat_lowest (doc (renderDashboard
         (s\<lparr>chance_races := Some (rs1 @ r\<lparr>boat1_win_prob := Some (Fin 0)\<rparr> # rs2)\<rparr>) st))
       = stat_lowest (doc (renderDashboard
         (s\<lparr>chance_races := Some (rs1 @ r\<lparr>boat1_win_prob := None\<rparr> # rs2)\<rparr>) st))
   \<and> stat_lowest (doc (renderDashboard
         (s\<lparr>chance_races := Some (rs1 @ r\<lparr>boat1_win_prob := Some (Fin 0)\<rparr> # rs2)\<rparr>) st))
       = stat_lowest (doc (renderDashboard
         (s\<lparr>chance_races := Some (rs1 @ r\<lparr>boat1_win_prob := Some (Fin 1)\<rparr> # rs2)\<rparr>) st))
   \<and> stat_lowest (doc (renderDashboard (snapshot_of [r\<lparr>boat1_win_prob := Some (Fin 0)\<rparr>]) st))
       = [S ''100'', S ''%'']
   \<and> race_prob (race_card_of i (r\<lparr>boat1_win_prob := Some (Fin 0)\<rparr>)) = [S ''0'', S ''%'']"
proof (intro conjI)
  show "num_or (Some (Fin 0)) d = num_or None d"
    by (simp add: num_or_def)
qed (rule total_races_zero_absent race_no_zero_absent rates_zero_absent card_prob_zero_absent
       lowest_zero_in_list lowest_single_zero card_prob_zero, simp?)+

subsection \<open>A snapshot without chance races\<close>

lemma renderDashboard_keeps_when_empty:
  assumes "chance_races s = Some [] \<or> chance_races s = None"
  shows "stat_lowest (doc (renderDashboard s st)) = stat_lowest (doc st)
   \<and> stat_tickets (doc (renderDashboard s st)) = stat_tickets (doc st)
   \<and> alert_banner_hidden (doc (renderDashboard s st)) = alert_banner_hidden (doc st)
   \<and> alert_text (doc (renderDashboard s st)) = alert_text (doc st)"
  using assms
  by (auto simp add: renderDashboard_def Let_def renderChanceRaces_def renderVenueSelector_def)

lemma renderDashboard_counts_when_empty:
  assumes "chance_races s = Some []"
  shows "stat_chance (doc (renderDashboard s st)) = [S ''0'']
    \<and> stat_total (doc (renderDashboard s st)) = [N (num_or (total_races s) (Fin 0))]
    \<and> num_or (total_races s) (Fin 0) \<noteq> NaN
    \<and> chance_races_html (doc (renderDashboard s st)) = EmptyState NoChanceRaces"
  using assms
  by (simp add: renderDashboard_def Let_def renderChanceRaces_def renderVenueSelector_def
        digits_lt_10 digit_char_def num_or_def split: option.splits)

lemma demo_lowest: "percent_text (Min (set (map code_contribution [demo_race_1, demo_race_2])))
    = [S ''22'', S ''%'']"
  by code_simp

lemma demo_probs_finite: "\<forall>r \<in> set [demo_race_1, demo_race_2]. prob_finite r"
  by code_simp

lemma renderDashboard_banner_nonempty:
  assumes "chance_races s = Some rs" and "rs \<noteq> []"
  shows "alert_banner_hidden (doc (renderDashboard s st)) = False
    \<and> alert_text (doc (renderDashboard s st))
        = [M AlertHead, S (digits (length rs)), M AlertMid] @ stat_lowest (doc (renderDashboard s st))
    \<and> stat_chance (doc (renderDashboard s st)) = [S (digits (length rs))]"
  using assms
  by (simp add: renderDashboard_def Let_def renderChanceRaces_def renderVenueSelector_def)

lemma demo_state_banner:
  "alert_banner_hidden (doc demo_state) = False
   \<and> alert_text (doc demo_state) = [M AlertHead, S ''2'', M AlertMid, S ''22'', S ''%'']
   \<and> stat_lowest (doc demo_state) = [S ''22'', S ''%'']
   \<and> stat_chance (doc demo_state) = [S ''2'']"
proof -
  define rs where "rs = [demo_race_1, demo_race_2]"
  have cr: "chance_races (getDemoData sample_day) = Some rs"
    by (simp add: getDemoData_def rs_def)
  have ne: "rs \<noteq> []"
    by (simp add: rs_def)
  have fin: "\<forall>r \<in> set rs. prob_finite r"
    unfolding rs_def by (rule demo_probs_finite)
  have len: "digits (length rs) = ''2''"
    by (simp add: rs_def digits_lt_10 digit_char_def)
  have "stat_lowest (doc demo_state)
      = [toFixed 0 (js_mul (Fin (Min (set (map code_contribution rs)))) (Fin 100)), S ''%'']"
    unfolding demo_state_def
    using renderDashboard_doc_nonempty [OF cr ne, of fresh_state]
      Math_min_contributions [OF ne fin] by simp
  then have low: "stat_lowest (doc demo_state) = [S ''22'', S ''%'']"
    using demo_lowest unfolding percent_text_def rs_def by simp
  from renderDashboard_banner_nonempty [OF cr ne, of fresh_state] low len
  show ?thesis
    unfolding demo_state_def by simp
qed

text \<open>
  Claim C7, as amended. Rendering a snapshot whose \<open>chance_races\<close> is empty writes neither
  the banner nor its text nor the lowest win probability nor the ticket count: they stay
  as they were, and nothing is computed from the empty minimum. So the banner is not shown
  after the render when it was hidden before it, as on the page as loaded. The count of
  races shows 0, the total is the snapshot's (never NaN) and the list shows its
  placeholder.
\<close>

theorem empty_chance_races_keeps_banner:
  assumes "chance_races s = Some []"
  shows "alert_banner_hidden (doc (renderDashboard s st)) = alert_banner_hidden (doc st)
    \<and> alert_text (doc (renderDashboard s st)) = alert_text (doc st)
    \<and> stat_lowest (doc (renderDashboard s st)) = stat_lowest (doc st)
    \<and> stat_tickets (doc (renderDashboard s st)) = stat_tickets (doc st)
    \<and> (alert_banner_hidden (doc st) \<longrightarrow> alert_banner_hidden (doc (renderDashboard s st)))
    \<and> stat_chance (doc (renderDashboard s st)) = [S ''0'']
    \<and> stat_total (doc (renderDashboard s st)) = [N (num_or (total_races s) (Fin 0))]
    \<and> num_or (total_races s) (Fin 0) \<noteq> NaN
    \<and> chance_races_html (doc (renderDashboard s st)) = EmptyState NoChanceRaces"
  using assms renderDashboard_keeps_when_empty [of s st] renderDashboard_counts_when_empty [of s st]
  by simp

theorem empty_chance_races_keeps_banner_witness:
  "alert_banner_hidden (doc fresh_state)
   \<and> alert_banner_hidden (doc (renderDashboard (snapshot_of []) fresh_state))
   \<and> stat_lowest (doc (renderDashboard (snapshot_of []) fresh_state)) = []
   \<and> stat_chance (doc (renderDashboard (snapshot_of []) fresh_state)) = [S ''0'']"
proof -
  have a: "chance_races (snapshot_of []) = Some []"
    by (simp add: snapshot_of_def)
  have b: "alert_banner_hidden (doc fresh_state) \<and> stat_lowest (doc fresh_state) = []"
    by (simp add: fresh_state_def fresh_page_def)
  from empty_chance_races_keeps_banner [OF a, of fresh_state] b show ?thesis
    by simp
qed

text \<open>
  Claim C7 as stated fails: rendered after the demo data, a snapshot whose
  \<open>chance_races\<close> is empty leaves the banner shown, with the text of the demo data, beside
  a count of 0.
\<close>

theorem empty_render_after_demo_counterexample:
  "chance_races (snapshot_of []) = Some []
   \<and> alert_banner_hidden (doc (renderDashboard (snapshot_of []) demo_state)) = False
   \<and> alert_text (doc (renderDashboard (snapshot_of []) demo_state))
       = [M AlertHead, S ''2'', M AlertMid, S ''22'', S ''%'']
   \<and> stat_lowest (doc (renderDashboard (snapshot_of []) demo_state)) = [S ''22'', S ''%'']
   \<and> stat_chance (doc (renderDashboard (snapshot_of []) demo_state)) = [S ''0'']"
proof -
  have a: "chance_races (snapshot_of []) = Some []"
    by (simp add: snapshot_of_def)
  from renderDashboard_keeps_when_empty [of "snapshot_of []" demo_state]
    renderDashboard_counts_when_empty [OF a, of demo_state] a demo_state_banner
  show ?thesis by simp
qed

subsection \<open>Rendering twice\<close>

lemma renderDashboard_visual_nonempty:
  assumes "chance_races s = Some rs" and "rs \<noteq> []"
  shows "visual_of (renderDashboard s st) = visual_of (renderDashboard s st')
    \<and> v_banner_hidden (visual_of (renderDashboard s st)) = False"
  using assms
  by (simp add: visual_of_def renderDashboard_def Let_def renderChanceRaces_def
        renderVenueSelector_def)

lemma renderDashboard_visual_always:
  "v_stat_chance (visual_of (renderDashboard s st)) = v_stat_chance (visual_of (renderDashboard s st'))
   \<and> v_stat_total (visual_of (renderDashboard s st)) = v_stat_total (visual_of (renderDashboard s st'))
   \<and> v_races (visual_of (renderDashboard s st)) = v_races (visual_of (renderDashboard s st'))
   \<and> v_venues (visual_of (renderDashboard s st)) = v_venues (visual_of (renderDashboard s st'))
   \<and> v_venue_value (visual_of (renderDashboard s st)) = v_venue_value (visual_of (renderDashboard s st'))"
  by (simp add: visual_of_def renderDashboard_def Let_def renderChanceRaces_def
        renderVenueSelector_def)

lemma renderDashboard_visual_empty:
  assumes "chance_races s = Some [] \<or> chance_races s = None"
  shows "v_stat_lowest (visual_of (renderDashboard s st)) = v_stat_lowest (visual_of st)
   \<and> v_stat_tickets (visual_of (renderDashboard s st)) = v_stat_tickets (visual_of st)
   \<and> v_banner_hidden (visual_of (renderDashboard s st)) = v_banner_hidden (visual_of st)
   \<and> v_alert_text (visual_of (renderDashboard s st)) = v_alert_text (visual_of st)"
  using renderDashboard_keeps_when_empty [OF assms, of st]
  by (simp add: visual_of_def)

text \<open>
  Claim C6, as amended. What \<open>renderDashboard\<close> leaves of the count of races, the total,
  the list of races and the options and value of the venue selector does not depend on
  the page before the call: they are replaced on every call. When the snapshot has chance
  races, the whole visual state does not depend on the page before the call, the banner
  is shown, and rendering the snapshot after another one leaves the same visual state as
  rendering it alone on the page as loaded. When the snapshot has no chance race
  (\<open>chance_races\<close> empty or absent), the lowest win probability, the ticket count, the
  banner and its text are what the page had before the call.
\<close>

theorem render_replaces_when_races:
  "(chance_races s2 = Some rs \<and> rs \<noteq> [] \<longrightarrow>
      visual_of (renderDashboard s2 st) = visual_of (renderDashboard s2 st')
      \<and> visual_of (renderDashboard s2 (renderDashboard s1 st))
          = visual_of (renderDashboard s2 fresh_state)
      \<and> v_banner_hidden (visual_of (renderDashboard s2 st)) = False)
   \<and> v_stat_chance (visual_of (renderDashboard s2 st))
       = v_stat_chance (visual_of (renderDashboard s2 st'))
   \<and> v_stat_total (visual_of (renderDashboard s2 st))
       = v_stat_total (visual_of (renderDashboard s2 st'))
   \<and> v_races (visual_of (renderDashboard s2 st)) = v_races (visual_of (renderDashboard s2 st'))
   \<and> v_venues (visual_of (renderDashboard s2 st)) = v_venues (visual_of (renderDashboard s2 st'))
   \<and> v_venue_value (visual_of (renderDashboard s2 st))
       = v_venue_value (visual_of (renderDashboard s2 st'))
   \<and> (chance_races s2 = Some [] \<or> chance_races s2 = None \<longrightarrow>
        v_stat_lowest (visual_of (renderDashboard s2 st)) = v_stat_lowest (visual_of st)
      \<and> v_stat_tickets (visual_of (renderDashboard s2 st)) = v_stat_tickets (visual_of st)
      \<and> v_banner_hidden (visual_of (renderDashboard s2 st)) = v_banner_hidden (visual_of st)
      \<and> v_alert_text (visual_of (renderDashboard s2 st)) = v_alert_text (visual_of st))"
proof (intro conjI impI)
  assume a: "chance_races s2 = Some rs \<and> rs \<noteq> []"
  then show "visual_of (renderDashboard s2 st) = visual_of (renderDashboard s2 st')"
    using renderDashboard_visual_nonempty [of s2 rs st st'] by blast
  from a show "visual_of (renderDashboard s2 (renderDashboard s1 st))
      = visual_of (renderDashboard s2 fresh_state)"
    using renderDashboard_visual_nonempty [of s2 rs "renderDashboard s1 st" fresh_state] by blast
  from a show "v_banner_hidden (visual_of (renderDashboard s2 st)) = False"
    using renderDashboard_visual_nonempty [of s2 rs st st'] by blast
next
  assume "chance_races s2 = Some [] \<or> chance_races s2 = None"
  from renderDashboard_visual_empty [OF this, of st]
  show "v_stat_lowest (visual_of (renderDashboard s2 st)) = v_stat_lowest (visual_of st)"
    and "v_stat_tickets (visual_of (renderDashboard s2 st)) = v_stat_tickets (visual_of st)"
    and "v_banner_hidden (visual_of (renderDashboard s2 st)) = v_banner_hidden (visual_of st)"
    and "v_alert_text (visual_of (renderDashboard s2 st)) = v_alert_text (visual_of st)"
    by blast+
qed (simp_all add: renderDashboard_visual_always [of s2 st st'])

theorem render_replaces_when_races_witness:
  "visual_of (renderDashboard (getDemoData sample_day) (renderDashboard (snapshot_of []) zero_prob_state))
     = visual_of (renderDashboard (getDemoData sample_day) fresh_state)
   \<and> v_banner_hidden (visual_of (renderDashboard (getDemoData sample_day) zero_prob_state)) = False
   \<and> v_banner_hidden (visual_of (renderDashboard (snapshot_of []) demo_state)) = False
   \<and> v_stat_lowest (visual_of (renderDashboard (snapshot_of []) demo_state)) = [S ''22'', S ''%'']"
proof -
  have a: "chance_races (getDemoData sample_day) = Some [demo_race_1, demo_race_2]
        \<and> [demo_race_1, demo_race_2] \<noteq> []"
    by (simp add: getDemoData_def)
  have b: "chance_races (snapshot_of []) = Some [] \<or> chance_races (snapshot_of []) = None"
    by (simp add: snapshot_of_def)
  have c: "v_banner_hidden (visual_of demo_state) = False
      \<and> v_stat_lowest (visual_of demo_state) = [S ''22'', S ''%'']"
    using demo_state_banner by (simp add: visual_of_def)
  from render_replaces_when_races
        [of "getDemoData sample_day" "[demo_race_1, demo_race_2]" zero_prob_state fresh_state
            "snapshot_of []"] a
  have x: "visual_of (renderDashboard (getDemoData sample_day)
               (renderDashboard (snapshot_of []) zero_prob_state))
        = visual_of (renderDashboard (getDemoData sample_day) fresh_state)
      \<and> v_banner_hidden (visual_of (renderDashboard (getDemoData sample_day) zero_prob_state))
          = False"
    by blast
  from render_replaces_when_races [of "snapshot_of []" "[]" demo_state fresh_state] b
  have y: "v_banner_hidden (visual_of (renderDashboard (snapshot_of []) demo_state))
        = v_banner_hidden (visual_of demo_state)
      \<and> v_stat_lowest (visual_of (renderDashboard (snapshot_of []) demo_state))
        = v_stat_lowest (visual_of demo_state)"
    by blast
  from x y c show ?thesis
    by simp
qed

text \<open>
  Claim C6 as stated fails: after the demo data, a snapshot without chance races leaves
  the banner shown, while alone on the page as loaded it leaves it hidden.
\<close>

theorem render_replaces_counterexample:
  "v_banner_hidden (visual_of (renderDashboard (snapshot_of [])
        (renderDashboard (getDemoData sample_day) fresh_state))) = False
   \<and> v_banner_hidden (visual_of (renderDashboard (snapshot_of []) fresh_state)) = True
   \<and> visual_of (renderDashboard (snapshot_of []) (renderDashboard (getDemoData sample_day) fresh_state))
      \<noteq> visual_of (renderDashboard (snapshot_of []) fresh_state)"
proof -
  have e: "chance_races (snapshot_of []) = Some [] \<or> chance_races (snapshot_of []) = None"
    by (simp add: snapshot_of_def)
  have 1: "v_banner_hidden (visual_of (renderDashboard (snapshot_of [])
        (renderDashboard (getDemoData sample_day) fresh_state))) = False"
    using renderDashboard_visual_empty [OF e, of demo_state] demo_state_banner
    by (simp add: visual_of_def demo_state_def)
  have 2: "v_banner_hidden (visual_of (renderDashboard (snapshot_of []) fresh_state)) = True"
    using renderDashboard_visual_empty [OF e, of fresh_state]
    by (simp add: visual_of_def fresh_state_def fresh_page_def)
  from 1 2 show ?thesis
    by auto
qed

subsection \<open>Loading\<close>

lemma length_digits_4: "1000 \<le> n \<Longrightarrow> n \<le> 9999 \<Longrightarrow> length (digits n) = 4"
  by (simp add: digits_ge_10 digits_lt_10)

lemma try_urls_two:
  "try_urls fetch today [u1, u2] st =
     (case candidate_data fetch u1 of
        Some d1 \<Rightarrow> renderDashboard d1 (st\<lparr>currentData := Some d1\<rparr>)
      | None \<Rightarrow>
          (case candidate_data fetch u2 of
             Some d2 \<Rightarrow> renderDashboard d2 (st\<lparr>currentData := Some d2\<rparr>)
           | None \<Rightarrow> renderDashboard (getDemoData today) st))"
  by (simp add: candidate_data_def split: option.splits)

lemma candidate_failed_iff: "candidate_failed fetch url \<longleftrightarrow> candidate_data fetch url = None"
  by (auto simp: candidate_failed_def candidate_data_def split: option.splits)

lemma demo_stat_chance: "stat_chance (doc (renderDashboard (getDemoData today) st)) = [S ''2'']"
  by (simp add: renderDashboard_def Let_def renderChanceRaces_def renderVenueSelector_def
       getDemoData_def digits.simps digit_char_def)

lemma currentData_renderDashboard: "currentData (renderDashboard data st) = Some data"
  by (simp add: renderDashboard_def Let_def)

text \<open>
  Claim C2. \<open>loadDailyData\<close> is a total function of the network, the day and the
  state, and it always leaves a snapshot in \<open>currentData\<close>. Its candidates are, in this
  order, the date-stamped address \<open>daily_YYYYMMDD.json\<close> of the day and the fixed address
  \<open>latest.json\<close>. It renders the snapshot of the first candidate that has not failed
  (\<open>fetch\<close> threw, the status was not a success, or the body did not parse), and when
  both have failed it renders the demo data, whose count of chance races shows 2.
\<close>

theorem loader_falls_back_to_demo:
  "daily_urls today =
     [''./data/daily_'' @ digits (getFullYear today) @ padStart0 2 (digits (getMonth today + 1))
        @ padStart0 2 (digits (getDate today)) @ ''.json'',
      ''./data/latest.json'']
   \<and> (1000 \<le> getFullYear today \<and> getFullYear today \<le> 9999 \<longrightarrow>
        hd (daily_urls today) =
          ''./data/daily_'' @ yyyymmdd (getFullYear today) (getMonth today + 1) (getDate today)
            @ ''.json'')
   \<and> (\<forall>d1. candidate_data fetch (daily_urls today ! 0) = Some d1 \<longrightarrow>
        loadDailyData fetch today st = renderDashboard d1 (st\<lparr>currentData := Some d1\<rparr>))
   \<and> (\<forall>d2. candidate_failed fetch (daily_urls today ! 0) \<longrightarrow>
        candidate_data fetch (daily_urls today ! 1) = Some d2 \<longrightarrow>
        loadDailyData fetch today st = renderDashboard d2 (st\<lparr>currentData := Some d2\<rparr>))
   \<and> (candidate_failed fetch (daily_urls today ! 0) \<longrightarrow>
      candidate_failed fetch (daily_urls today ! 1) \<longrightarrow>
        loadDailyData fetch today st = renderDashboard (getDemoData today) st
        \<and> stat_chance (doc (loadDailyData fetch today st)) = [S ''2'']
        \<and> currentData (loadDailyData fetch today st) = Some (getDemoData today))
   \<and> currentData (loadDailyData fetch today st) \<noteq> None"
proof -
  have urls: "daily_urls today =
     [''./data/daily_'' @ digits (getFullYear today) @ padStart0 2 (digits (getMonth today + 1))
        @ padStart0 2 (digits (getDate today)) @ ''.json'',
      ''./data/latest.json'']"
    by (simp add: daily_urls_def Let_def DATA_PATH_def)
  have fmt: "1000 \<le> getFullYear today \<and> getFullYear today \<le> 9999 \<longrightarrow>
        hd (daily_urls today) =
          ''./data/daily_'' @ yyyymmdd (getFullYear today) (getMonth today + 1) (getDate today)
            @ ''.json''"
    by (simp add: urls yyyymmdd_def) (simp add: padStart0_def length_digits_4)
  obtain u1 u2 where u: "daily_urls today = [u1, u2]"
    using urls by blast
  have load: "loadDailyData fetch today st =
     (case candidate_data fetch u1 of
        Some d1 \<Rightarrow> renderDashboard d1 (st\<lparr>currentData := Some d1\<rparr>)
      | None \<Rightarrow>
          (case candidate_data fetch u2 of
             Some d2 \<Rightarrow> renderDashboard d2 (st\<lparr>currentData := Some d2\<rparr>)
           | None \<Rightarrow> renderDashboard (getDemoData today) st))"
    by (simp only: loadDailyData_def u try_urls_two)
  have some: "currentData (loadDailyData fetch today st) \<noteq> None"
    by (simp add: load currentData_renderDashboard split: option.splits)
  have first: "\<forall>d1. candidate_data fetch (daily_urls today ! 0) = Some d1 \<longrightarrow>
        loadDailyData fetch today st = renderDashboard d1 (st\<lparr>currentData := Some d1\<rparr>)"
    by (simp add: load u)
  have second: "\<forall>d2. candidate_failed fetch (daily_urls today ! 0) \<longrightarrow>
        candidate_data fetch (daily_urls today ! 1) = Some d2 \<longrightarrow>
        loadDailyData fetch today st = renderDashboard d2 (st\<lparr>currentData := Some d2\<rparr>)"
    by (simp add: load u candidate_failed_iff)
  have demo: "candidate_failed fetch (daily_urls today ! 0) \<longrightarrow>
      candidate_failed fetch (daily_urls today ! 1) \<longrightarrow>
        loadDailyData fetch today st = renderDashboard (getDemoData today) st
        \<and> stat_chance (doc (loadDailyData fetch today st)) = [S ''2'']
        \<and> currentData (loadDailyData fetch today st) = Some (getDemoData today)"
    by (simp add: load u candidate_failed_iff demo_stat_chance
          currentData_renderDashboard)
  from urls fmt first second demo some show ?thesis
    by blast
qed

theorem loader_falls_back_to_demo_witness:
  "candidate_failed no_network (daily_urls sample_day ! 0)
   \<and> candidate_failed no_network (daily_urls sample_day ! 1)
   \<and> stat_chance (doc (loadDailyData no_network sample_day fresh_state)) = [S ''2'']
   \<and> candidate_failed latest_only (daily_urls sample_day ! 0)
   \<and> daily_urls sample_day = [''./data/daily_20260310.json'', ''./data/latest.json'']
   \<and> loadDailyData latest_only sample_day fresh_state
       = renderDashboard (snapshot_of [race_with_prob None])
           (fresh_state\<lparr>currentData := Some (snapshot_of [race_with_prob None])\<rparr>)"
proof -
  have u: "daily_urls sample_day = [''./data/daily_20260310.json'', ''./data/latest.json'']"
    by code_simp
  have a: "candidate_failed no_network (daily_urls sample_day ! 0)"
    "candidate_failed no_network (daily_urls sample_day ! 1)"
    by (simp_all add: candidate_failed_def no_network_def)
  have b: "candidate_failed latest_only (daily_urls sample_day ! 0)"
    by (simp add: u candidate_failed_def latest_only_def)
  have c: "candidate_data latest_only (daily_urls sample_day ! 1) = Some (snapshot_of [race_with_prob None])"
    by (simp add: u candidate_data_def latest_only_def)
  show ?thesis
    using loader_falls_back_to_demo [of sample_day no_network fresh_state]
      loader_falls_back_to_demo [of sample_day latest_only fresh_state] a b c u
    by blast
qed

subsection \<open>The daily password\<close>

lemma digits_are_digits: "set (digits n) \<subseteq> set ''0123456789''"
proof (induction n rule: digits.induct)
  case (1 n)
  have d: "digit_char (n mod 10) \<in> set ''0123456789''"
    unfolding digit_char_def by (rule nth_mem) simp
  show ?case
  proof (cases "n < 10")
    case True
    with d show ?thesis by (simp add: digits_lt_10)
  next
    case False
    with 1 d show ?thesis by (simp add: digits_ge_10)
  qed
qed

lemma no_hyphen_in_padded_digits: "CHR ''-'' \<notin> set (padStart0 k (digits n))"
  using digits_are_digits [of n] by (auto simp: padStart0_def)

lemma length_padStart0: "length (padStart0 k s) = max k (length s)"
  by (simp add: padStart0_def)

lemma length_digits_le_2: "n \<le> 99 \<Longrightarrow> length (digits n) \<le> 2"
proof (cases "n < 10")
  case True
  then show ?thesis by (simp add: digits_lt_10)
next
  case False
  then have "digits n = digits (n div 10) @ [digit_char (n mod 10)]"
    by (simp add: digits_ge_10)
  moreover assume "n \<le> 99"
  then have "n div 10 < 10" by simp
  ultimately show ?thesis by (simp add: digits_lt_10)
qed

lemma length_digits_le_4: "n \<le> 9999 \<Longrightarrow> length (digits n) \<le> 4"
proof (cases "n < 100")
  case True
  then show ?thesis using length_digits_le_2 [of n] by simp
next
  case False
  assume "n \<le> 9999"
  then have "n div 10 div 10 \<le> 99" by simp
  then have "length (digits (n div 10 div 10)) \<le> 2"
    by (rule length_digits_le_2)
  moreover have "digits n = digits (n div 10) @ [digit_char (n mod 10)]"
    using False by (simp add: digits_ge_10)
  moreover have "digits (n div 10) = digits (n div 10 div 10) @ [digit_char (n div 10 mod 10)]"
    using False digits_ge_10 [of "n div 10"] by simp
  ultimately show ?thesis by simp
qed

lemma toISOString_slice10_valid:
  assumes "valid_utc_date d"
  shows "toISOString_slice10 d =
     padStart0 4 (digits (getUTCFullYear d)) @ ''-'' @ padStart0 2 (digits (getUTCMonth d + 1))
       @ ''-'' @ padStart0 2 (digits (getUTCDate d))"
proof -
  have y: "length (padStart0 4 (digits (getUTCFullYear d))) = 4"
    using assms length_digits_le_4 [of "getUTCFullYear d"]
    by (simp add: valid_utc_date_def length_padStart0)
  have m: "length (padStart0 2 (digits (getUTCMonth d + 1))) = 2"
    using assms length_digits_le_2 [of "getUTCMonth d + 1"]
    by (simp add: valid_utc_date_def length_padStart0)
  have dd: "length (padStart0 2 (digits (getUTCDate d))) = 2"
    using assms length_digits_le_2 [of "getUTCDate d"]
    by (simp add: valid_utc_date_def length_padStart0)
  show ?thesis
    using assms y m dd by (simp add: toISOString_slice10_def valid_utc_date_def)
qed

lemma remove_hyphens_id: "CHR ''-'' \<notin> set s \<Longrightarrow> remove_hyphens s = s"
  by (induction s) (auto simp: remove_hyphens_def)

lemma dateStr_valid:
  assumes "valid_utc_date d"
  shows "remove_hyphens (toISOString_slice10 d)
           = yyyymmdd (getUTCFullYear d) (getUTCMonth d + 1) (getUTCDate d)"
proof -
  have "remove_hyphens (a @ ''-'' @ b @ ''-'' @ c) = remove_hyphens a @ remove_hyphens b @ remove_hyphens c"
    for a b c by (simp add: remove_hyphens_def)
  then show ?thesis
    by (simp add: toISOString_slice10_valid [OF assms] yyyymmdd_def
          remove_hyphens_id no_hyphen_in_padded_digits)
qed

lemma byte_to_hex: "padStart0 2 (toString16 b) = [hex_char (unat b div 16), hex_char (unat b mod 16)]"
  by (simp add: padStart0_def toString16_def hex_char_def)

lemma hashHex_is_hex_lower: "concat (map (\<lambda>b. padStart0 2 (toString16 b)) bs) = hex_lower bs"
  by (simp add: hex_lower_def byte_to_hex)

lemma length_hex_lower: "length (hex_lower bs) = 2 * length bs"
  by (induction bs) (simp_all add: hex_lower_def)

lemma hex_char_in: "n < 16 \<Longrightarrow> hex_char n \<in> set ''0123456789abcdef''"
  unfolding hex_char_def by (rule nth_mem) simp

lemma set_hex_lower: "set (hex_lower bs) \<subseteq> set ''0123456789abcdef''"
proof -
  have "unat b div 16 < 16" for b :: "8 word"
    using unsigned_less [of b, where ?'a = nat] by simp
  then have "hex_char (unat b div 16) \<in> set ''0123456789abcdef''"
    and "hex_char (unat b mod 16) \<in> set ''0123456789abcdef''" for b :: "8 word"
    by (simp_all only: hex_char_in mod_less_divisor zero_less_numeral)
  then show ?thesis
    unfolding hex_lower_def by (induction bs) simp_all
qed

lemma generateDailyPassword_hex:
  "generateDailyPassword sha256 today =
     take 8 (hex_lower (Uint8Array_from (sha256 (encode
       (remove_hyphens (toISOString_slice10 today) @ AUTH_SECRET)))))"
  by (simp add: generateDailyPassword_def Let_def hashHex_is_hex_lower)

lemma length_Uint8Array_from: "length (Uint8Array_from h) = 32"
  by (simp add: Uint8Array_from_def)

lemma Uint8Array_from_first4:
  "\<exists>rest. Uint8Array_from h =
     [ucast (drop_bit 248 h), ucast (drop_bit 240 h), ucast (drop_bit 232 h),
      ucast (drop_bit 224 h)] @ rest"
proof -
  have "[0 ..< 32] = [0, 1, 2, 3] @ [4 ..< 32]"
    by (simp add: upt_rec)
  then have "Uint8Array_from h =
      map (\<lambda>i. ucast (drop_bit (8 * (31 - i)) h)) [0, 1, 2, 3]
      @ map (\<lambda>i. ucast (drop_bit (8 * (31 - i)) h)) [4 ..< 32]"
    unfolding Uint8Array_from_def by (simp only: map_append)
  then show ?thesis by simp
qed

lemma take8_hex_lower:
  "take 8 (hex_lower (Uint8Array_from h)) =
     hex_lower [ucast (drop_bit 248 h), ucast (drop_bit 240 h), ucast (drop_bit 232 h),
                ucast (drop_bit 224 h)]"
proof -
  from Uint8Array_from_first4 [of h] obtain rest where
    "Uint8Array_from h =
       [ucast (drop_bit 248 h), ucast (drop_bit 240 h), ucast (drop_bit 232 h),
        ucast (drop_bit 224 h)] @ rest"
    by blast
  then show ?thesis
    by (simp add: hex_lower_def)
qed

lemma sample_password: "generateDailyPassword sample_digest sample_day = ''01234567''"
  unfolding generateDailyPassword_hex take8_hex_lower sample_digest_def
  by (simp add: hex_lower_def hex_char_def)

lemma sample_password_spec: "derivedPassword_spec sample_digest 2026 3 9 = ''01234567''"
  unfolding derivedPassword_spec_def take8_hex_lower sample_digest_def
  by (simp add: hex_lower_def hex_char_def)

text \<open>
  Claim C3. For every digest function and every day, the password has exactly 8
  characters, all of them lowercase hexadecimal digits; it depends on the day only through
  its UTC calendar date, so the same date gives the same password; and on a calendar date
  (a year of at most four digits) it is the first 8 characters of the lowercase
  hexadecimal digest of the UTF-8 bytes of the date formatted \<open>YYYYMMDD\<close> followed by
  the secret.
\<close>

theorem daily_password_is_hex_prefix:
  "length (generateDailyPassword sha256 today) = 8
   \<and> set (generateDailyPassword sha256 today) \<subseteq> set ''0123456789abcdef''
   \<and> (valid_utc_date today \<longrightarrow>
        generateDailyPassword sha256 today =
          derivedPassword_spec sha256 (getUTCFullYear today) (getUTCMonth today + 1)
            (getUTCDate today))
   \<and> (getUTCFullYear today = getUTCFullYear today' \<and> getUTCMonth today = getUTCMonth today'
        \<and> getUTCDate today = getUTCDate today' \<longrightarrow>
        generateDailyPassword sha256 today = generateDailyPassword sha256 today')"
proof (intro conjI impI)
  show "length (generateDailyPassword sha256 today) = 8"
    by (simp add: generateDailyPassword_hex length_hex_lower length_Uint8Array_from)
  show "set (generateDailyPassword sha256 today) \<subseteq> set ''0123456789abcdef''"
    unfolding generateDailyPassword_hex
    by (rule subset_trans [OF set_take_subset set_hex_lower])
  show "generateDailyPassword sha256 today =
          derivedPassword_spec sha256 (getUTCFullYear today) (getUTCMonth today + 1)
            (getUTCDate today)" if "valid_utc_date today"
    by (simp add: generateDailyPassword_hex derivedPassword_spec_def dateStr_valid [OF that])
  show "generateDailyPassword sha256 today = generateDailyPassword sha256 today'"
    if "getUTCFullYear today = getUTCFullYear today' \<and> getUTCMonth today = getUTCMonth today'
        \<and> getUTCDate today = getUTCDate today'"
    using that by (simp add: generateDailyPassword_def toISOString_slice10_def)
qed

theorem daily_password_is_hex_prefix_witness:
  "valid_utc_date sample_day
   \<and> generateDailyPassword sample_digest sample_day = ''01234567''
   \<and> derivedPassword_spec sample_digest 2026 3 9 = ''01234567''"
proof -
  have v: "valid_utc_date sample_day"
    by (simp add: valid_utc_date_def sample_day_def)
  have s: "derivedPassword_spec sample_digest 2026 3 9 = ''01234567''"
    by (rule sample_password_spec)
  have f: "getUTCFullYear sample_day = 2026 \<and> getUTCMonth sample_day + 1 = 3 \<and> getUTCDate sample_day = 9"
    by (simp add: sample_day_def)
  show ?thesis
    using daily_password_is_hex_prefix [of sample_digest sample_day sample_day] v s f
    by simp
qed

subsection \<open>Unlocking\<close>

lemma renderDashboard_lock:
  "blitzboat_auth (renderDashboard data st) = blitzboat_auth st
   \<and> dashboard_hidden (doc (renderDashboard data st)) = dashboard_hidden (doc st)
   \<and> auth_overlay_hidden (doc (renderDashboard data st)) = auth_overlay_hidden (doc st)"
  by (simp add: renderDashboard_def Let_def renderChanceRaces_def renderVenueSelector_def)

lemma try_urls_lock:
  "blitzboat_auth (try_urls fetch today urls st) = blitzboat_auth st
   \<and> dashboard_hidden (doc (try_urls fetch today urls st)) = dashboard_hidden (doc st)
   \<and> auth_overlay_hidden (doc (try_urls fetch today urls st)) = auth_overlay_hidden (doc st)"
  by (induction urls) (simp_all add: renderDashboard_lock split: option.splits)

lemma showDashboard_lock:
  "blitzboat_auth (showDashboard fetch now st) = blitzboat_auth st
   \<and> dashboard_hidden (doc (showDashboard fetch now st)) = False
   \<and> auth_overlay_hidden (doc (showDashboard fetch now st)) = True"
  by (simp add: showDashboard_def initDashboard_def loadDailyData_def try_urls_lock)

lemma auth_form_submit_cases:
  "(trim (auth_password (doc st)) = generateDailyPassword sha256 now \<longrightarrow>
      blitzboat_auth (auth_form_submit sha256 fetch now st) = Some (toISOString_slice10 now)
      \<and> \<not> dashboard_hidden (doc (auth_form_submit sha256 fetch now st))
      \<and> auth_overlay_hidden (doc (auth_form_submit sha256 fetch now st)))
   \<and> (trim (auth_password (doc st)) \<noteq> generateDailyPassword sha256 now \<longrightarrow>
      blitzboat_auth (auth_form_submit sha256 fetch now st) = blitzboat_auth st
      \<and> currentData (auth_form_submit sha256 fetch now st) = currentData st
      \<and> dashboard_hidden (doc (auth_form_submit sha256 fetch now st)) = dashboard_hidden (doc st)
      \<and> auth_overlay_hidden (doc (auth_form_submit sha256 fetch now st))
          = auth_overlay_hidden (doc st)
      \<and> auth_error (doc (auth_form_submit sha256 fetch now st)) = [M WrongPassword]
      \<and> auth_password (doc (auth_form_submit sha256 fetch now st)) = [])"
  by (simp add: auth_form_submit_def Let_def showDashboard_lock)

lemma utc_password:
  assumes "valid_utc_date now"
  shows "generateDailyPassword sha256 now =
           derivedPassword_spec sha256 (getUTCFullYear now) (getUTCMonth now + 1) (getUTCDate now)
     \<and> toISOString_slice10 now = utc_date_key now"
proof
  show "generateDailyPassword sha256 now =
           derivedPassword_spec sha256 (getUTCFullYear now) (getUTCMonth now + 1) (getUTCDate now)"
    by (simp only: generateDailyPassword_hex derivedPassword_spec_def dateStr_valid [OF assms])
  show "toISOString_slice10 now = utc_date_key now"
    by (simp add: toISOString_slice10_valid [OF assms] utc_date_key_def)
qed

lemma day_digit_password:
  "generateDailyPassword day_digit_digest sample_day = ''39000000''
   \<and> derivedPassword_spec day_digit_digest 2026 3 10 = ''30000000''"
proof -
  have r: "remove_hyphens (toISOString_slice10 sample_day) @ AUTH_SECRET = ''20260309blitzboat2026''"
    "yyyymmdd 2026 3 10 @ AUTH_SECRET = ''20260310blitzboat2026''"
    by code_simp+
  have a: "day_digit_digest (encode ''20260309blitzboat2026'') = push_bit 248 57"
    "day_digit_digest (encode ''20260310blitzboat2026'') = push_bit 248 48"
    by (simp_all add: day_digit_digest_def encode_def)
  show ?thesis
    unfolding generateDailyPassword_hex derivedPassword_spec_def r a take8_hex_lower
    by (simp add: hex_lower_def hex_char_def)
qed

text \<open>
  Claim C4, as amended. The day of the unlock form is the UTC calendar date of the
  instant, as \<open>toISOString\<close> prints it, not the local calendar date. The submit handler
  unlocks exactly when the trimmed input is the password of that date: on a calendar date
  with a year of at most four digits, the password the specification derives from the UTC
  year, month and day. On a match it stores the UTC date, \<open>YYYY-MM-DD\<close>, in the session
  storage and shows the dashboard. On a mismatch it leaves the stored date, the current
  snapshot and the visibility of the dashboard and of the prompt as they were; it shows
  the error message and clears the field.
\<close>

theorem unlock_iff_password:
  "(trim (auth_password (doc st)) = generateDailyPassword sha256 now \<longrightarrow>
      blitzboat_auth (auth_form_submit sha256 fetch now st) = Some (toISOString_slice10 now)
      \<and> \<not> dashboard_hidden (doc (auth_form_submit sha256 fetch now st))
      \<and> auth_overlay_hidden (doc (auth_form_submit sha256 fetch now st)))
   \<and> (trim (auth_password (doc st)) \<noteq> generateDailyPassword sha256 now \<longrightarrow>
      blitzboat_auth (auth_form_submit sha256 fetch now st) = blitzboat_auth st
      \<and> currentData (auth_form_submit sha256 fetch now st) = currentData st
      \<and> dashboard_hidden (doc (auth_form_submit sha256 fetch now st)) = dashboard_hidden (doc st)
      \<and> auth_overlay_hidden (doc (auth_form_submit sha256 fetch now st))
          = auth_overlay_hidden (doc st)
      \<and> auth_error (doc (auth_form_submit sha256 fetch now st)) = [M WrongPassword]
      \<and> auth_password (doc (auth_form_submit sha256 fetch now st)) = [])
   \<and> (valid_utc_date now \<longrightarrow>
      generateDailyPassword sha256 now =
        derivedPassword_spec sha256 (getUTCFullYear now) (getUTCMonth now + 1) (getUTCDate now)
      \<and> toISOString_slice10 now = utc_date_key now)"
  using auth_form_submit_cases [of st sha256 now fetch] utc_password [of now sha256]
  by blast

theorem unlock_iff_password_witness:
  "valid_utc_date sample_day
   \<and> utc_date_key sample_day = ''2026-03-09''
   \<and> local_date_key sample_day = ''2026-03-10''
   \<and> trim (auth_password (doc (typed ''  39000000 '' fresh_state)))
     = derivedPassword_spec day_digit_digest 2026 3 9
   \<and> blitzboat_auth (auth_form_submit day_digit_digest no_network sample_day
        (typed ''  39000000 '' fresh_state)) = Some ''2026-03-09''
   \<and> \<not> dashboard_hidden (doc (auth_form_submit day_digit_digest no_network sample_day
        (typed ''  39000000 '' fresh_state)))
   \<and> trim (auth_password (doc (typed ''3900000'' fresh_state)))
     \<noteq> generateDailyPassword day_digit_digest sample_day
   \<and> blitzboat_auth (auth_form_submit day_digit_digest no_network sample_day
        (typed ''3900000'' fresh_state)) = None
   \<and> dashboard_hidden (doc (auth_form_submit day_digit_digest no_network sample_day
        (typed ''3900000'' fresh_state)))"
proof -
  have v: "valid_utc_date sample_day"
    by (simp add: valid_utc_date_def sample_day_def)
  have f: "getUTCFullYear sample_day = 2026 \<and> getUTCMonth sample_day + 1 = 3
      \<and> getUTCDate sample_day = 9"
    by (simp add: sample_day_def)
  have k: "utc_date_key sample_day = ''2026-03-09''" "local_date_key sample_day = ''2026-03-10''"
    by code_simp+
  have a: "trim (auth_password (doc (typed ''  39000000 '' fresh_state))) = ''39000000''"
    by code_simp
  have b: "trim (auth_password (doc (typed ''3900000'' fresh_state))) = ''3900000''"
    by code_simp
  have c: "blitzboat_auth (typed ''3900000'' fresh_state) = None
    \<and> dashboard_hidden (doc (typed ''3900000'' fresh_state))"
    by (simp add: typed_def fresh_state_def fresh_page_def)
  note t1 = unlock_iff_password
      [of "typed ''  39000000 '' fresh_state" day_digit_digest sample_day no_network]
  note t2 = unlock_iff_password
      [of "typed ''3900000'' fresh_state" day_digit_digest sample_day no_network]
  from t1 v f have p: "generateDailyPassword day_digit_digest sample_day
      = derivedPassword_spec day_digit_digest 2026 3 9"
    and key: "toISOString_slice10 sample_day = utc_date_key sample_day"
    by simp_all
  have q: "generateDailyPassword day_digit_digest sample_day = ''39000000''"
    using day_digit_password by blast
  from t1 a p q key k(1)
  have ok: "blitzboat_auth (auth_form_submit day_digit_digest no_network sample_day
        (typed ''  39000000 '' fresh_state)) = Some ''2026-03-09''
      \<and> \<not> dashboard_hidden (doc (auth_form_submit day_digit_digest no_network sample_day
        (typed ''  39000000 '' fresh_state)))"
    by simp
  from t2 b q c
  have no: "blitzboat_auth (auth_form_submit day_digit_digest no_network sample_day
        (typed ''3900000'' fresh_state)) = None
      \<and> dashboard_hidden (doc (auth_form_submit day_digit_digest no_network sample_day
        (typed ''3900000'' fresh_state)))"
    by simp
  have r: "trim (auth_password (doc (typed ''  39000000 '' fresh_state)))
      = derivedPassword_spec day_digit_digest 2026 3 9"
    using a p q by simp
  have n: "trim (auth_password (doc (typed ''3900000'' fresh_state)))
      \<noteq> generateDailyPassword day_digit_digest sample_day"
    using b q by simp
  from v k r n ok no show ?thesis
    by blast
qed

text \<open>
  Claim C4 as stated, with the local calendar date of section 4.2 for the day, fails:
  at an instant whose local date is the 10th and whose UTC date is the 9th, the password
  of the local date is refused, and the password that is accepted stores the 9th.
\<close>

theorem unlock_local_date_counterexample:
  "local_date_key sample_day = ''2026-03-10''
   \<and> derivedPassword_spec day_digit_digest 2026 3 10 = ''30000000''
   \<and> blitzboat_auth (auth_form_submit day_digit_digest no_network sample_day
        (typed ''30000000'' fresh_state)) = None
   \<and> dashboard_hidden (doc (auth_form_submit day_digit_digest no_network sample_day
        (typed ''30000000'' fresh_state)))
   \<and> blitzboat_auth (auth_form_submit day_digit_digest no_network sample_day
        (typed ''39000000'' fresh_state)) = Some ''2026-03-09''
   \<and> blitzboat_auth (auth_form_submit day_digit_digest no_network sample_day
        (typed ''39000000'' fresh_state)) \<noteq> Some (local_date_key sample_day)"
proof -
  have k: "local_date_key sample_day = ''2026-03-10''"
    "toISOString_slice10 sample_day = ''2026-03-09''"
    by code_simp+
  have q: "generateDailyPassword day_digit_digest sample_day = ''39000000''"
    and q': "derivedPassword_spec day_digit_digest 2026 3 10 = ''30000000''"
    using day_digit_password by blast+
  have a: "trim (auth_password (doc (typed ''30000000'' fresh_state))) = ''30000000''"
    "trim (auth_password (doc (typed ''39000000'' fresh_state))) = ''39000000''"
    by code_simp+
  have c: "blitzboat_auth (typed ''30000000'' fresh_state) = None
    \<and> dashboard_hidden (doc (typed ''30000000'' fresh_state))"
    by (simp add: typed_def fresh_state_def fresh_page_def)
  from auth_form_submit_cases [of "typed ''30000000'' fresh_state" day_digit_digest sample_day no_network]
    a(1) q c
  have no: "blitzboat_auth (auth_form_submit day_digit_digest no_network sample_day
        (typed ''30000000'' fresh_state)) = None
      \<and> dashboard_hidden (doc (auth_form_submit day_digit_digest no_network sample_day
        (typed ''30000000'' fresh_state)))"
    by simp
  from auth_form_submit_cases [of "typed ''39000000'' fresh_state" day_digit_digest sample_day no_network]
    a(2) q k(2)
  have ok: "blitzboat_auth (auth_form_submit day_digit_digest no_network sample_day
        (typed ''39000000'' fresh_state)) = Some ''2026-03-09''"
    by simp
  from k(1) q' no ok show ?thesis
    by simp
qed

subsection \<open>Tickets and the selection of a race\<close>

text \<open>
  Claim C5 at a snapshot the script can receive: a ticket without \<open>amount\<close>. The
  ticket renderer throws a TypeError, and so does the selection of the race that holds the
  ticket; the ticket list is not rendered.
\<close>

theorem missing_amount_throws:
  "renderTickets (Some [ticket_without_amount]) None None fresh_state = Inl TypeError
   \<and> selectRace 0
       (renderDashboard (snapshot_of [race_with_tickets [ticket_without_amount]]) fresh_state)
     = Inl TypeError"
  by code_simp

lemma ticket_cards_total:
  "amounts_present ts \<Longrightarrow> \<exists>cs. ticket_cards i ts = Inr cs \<and> length cs = length ts"
proof (induction ts arbitrary: i)
  case Nil
  show ?case by simp
next
  case (Cons t ts)
  then obtain a where a: "amount t = Some a" and rest: "amounts_present ts"
    by (auto simp: amounts_present_def)
  from Cons.IH [OF rest, of "Suc i"] obtain cs
    where "ticket_cards (Suc i) ts = Inr cs" and "length cs = length ts"
    by blast
  with a show ?case by simp
qed

lemma renderTickets_total:
  assumes "amounts_present ts"
  shows "\<exists>cs st1. ticket_cards 0 ts = Inr cs \<and> length cs = length ts
     \<and> renderTickets (Some ts) vn rn st = Inr st1
     \<and> currentData st1 = currentData st
     \<and> venue_select_html (doc st1) = venue_select_html (doc st)
     \<and> ticket_list (doc st1)
         = (if ts = [] then EmptyState NoTickets
            else TicketCards cs (Loc (foldl (\<lambda>s t. js_add s (to_number (amount t))) (Fin 0) ts)))"
proof -
  from ticket_cards_total [OF assms, of 0] obtain cs
    where "ticket_cards 0 ts = Inr cs" and "length cs = length ts"
    by blast
  then show ?thesis
    by (simp add: renderTickets_def Let_def)
qed

lemma renderVenueRanking_frame:
  "ticket_list (doc (renderVenueRanking j st)) = ticket_list (doc st)
   \<and> venue_select_value (doc (renderVenueRanking j st)) = venue_select_value (doc st)
   \<and> currentData (renderVenueRanking j st) = currentData st"
  by (simp add: renderVenueRanking_def Let_def split: option.splits property.splits)

lemma renderVenueRanking_reads_currentData:
  "currentData st = currentData st' \<Longrightarrow>
   ranking_table (doc (renderVenueRanking j st)) = ranking_table (doc (renderVenueRanking j st'))"
  by (simp add: renderVenueRanking_def Let_def split: option.splits property.splits)

lemma assign_select_value_on_options:
  assumes "venue_select_html d = Options opts"
  shows "venue_select_value (assign_select_value v d) = (if v \<in> fst ` set opts then v else [])
    \<and> ticket_list (assign_select_value v d) = ticket_list d"
  using assms by (simp add: assign_select_value_def option_values_def)

lemma selectRace_noop:
  "(currentData st = None \<longrightarrow> selectRace i st = Inr st)
   \<and> (currentData st = Some data \<and> chance_races data = None \<longrightarrow> selectRace i st = Inr st)
   \<and> (currentData st = Some data \<and> chance_races data = Some rs
        \<and> (i < 0 \<or> int (length rs) \<le> i) \<longrightarrow> selectRace i st = Inr st)"
  by (auto simp add: selectRace_def)

lemma selectRace_no_tickets:
  assumes "currentData st = Some data" and "chance_races data = Some rs"
    and "0 \<le> i" and "i < int (length rs)" and "tickets (rs ! nat i) = None"
    and "venue_select_html (doc st) = Options opts"
  shows "\<exists>st'. selectRace i st = Inr st'
     \<and> ticket_list (doc st') = ticket_list (doc st)
     \<and> venue_select_value (doc st')
         = (if str_or (venue (rs ! nat i)) [] \<in> fst ` set opts
            then str_or (venue (rs ! nat i)) [] else [])
     \<and> ranking_table (doc st') = ranking_table (doc (renderVenueRanking (venue (rs ! nat i)) st))"
proof -
  let ?r = "rs ! nat i"
  let ?st0 = "st\<lparr>doc := assign_select_value (str_or (venue ?r) []) (doc st)\<rparr>"
  have sel: "selectRace i st = Inr (renderVenueRanking (venue ?r) ?st0)"
    using assms(1-5) by (simp add: selectRace_def Let_def)
  have "currentData ?st0 = currentData st"
    by simp
  then have "ranking_table (doc (renderVenueRanking (venue ?r) ?st0))
      = ranking_table (doc (renderVenueRanking (venue ?r) st))"
    by (rule renderVenueRanking_reads_currentData)
  with sel assign_select_value_on_options [OF assms(6), of "str_or (venue ?r) []"]
  show ?thesis
    by (simp add: renderVenueRanking_frame)
qed

lemma selectRace_tickets:
  assumes "currentData st = Some data" and "chance_races data = Some rs"
    and "0 \<le> i" and "i < int (length rs)" and "tickets (rs ! nat i) = Some ts"
    and "amounts_present ts" and "venue_select_html (doc st) = Options opts"
  shows "\<exists>cs st1 st'. ticket_cards 0 ts = Inr cs \<and> length cs = length ts
     \<and> renderTickets (Some ts) (venue_name (rs ! nat i)) (race_no (rs ! nat i)) st = Inr st1
     \<and> selectRace i st = Inr st'
     \<and> ticket_list (doc st') = ticket_list (doc st1)
     \<and> ticket_list (doc st')
         = (if ts = [] then EmptyState NoTickets
            else TicketCards cs (Loc (foldl (\<lambda>s t. js_add s (to_number (amount t))) (Fin 0) ts)))
     \<and> venue_select_value (doc st')
         = (if str_or (venue (rs ! nat i)) [] \<in> fst ` set opts
            then str_or (venue (rs ! nat i)) [] else [])
     \<and> ranking_table (doc st') = ranking_table (doc (renderVenueRanking (venue (rs ! nat i)) st))"
proof -
  let ?r = "rs ! nat i"
  from renderTickets_total [OF assms(6), of "venue_name ?r" "race_no ?r" st]
  obtain cs st1 where cs: "ticket_cards 0 ts = Inr cs" "length cs = length ts"
    and r: "renderTickets (Some ts) (venue_name ?r) (race_no ?r) st = Inr st1"
    and c: "currentData st1 = currentData st"
    and h: "venue_select_html (doc st1) = venue_select_html (doc st)"
    and e: "ticket_list (doc st1)
         = (if ts = [] then EmptyState NoTickets
            else TicketCards cs (Loc (foldl (\<lambda>s t. js_add s (to_number (amount t))) (Fin 0) ts)))"
    by blast
  let ?st0 = "st1\<lparr>doc := assign_select_value (str_or (venue ?r) []) (doc st1)\<rparr>"
  have sel: "selectRace i st = Inr (renderVenueRanking (venue ?r) ?st0)"
    using assms(1-5) r by (simp add: selectRace_def Let_def)
  have "currentData ?st0 = currentData st"
    using c by simp
  then have rk: "ranking_table (doc (renderVenueRanking (venue ?r) ?st0))
      = ranking_table (doc (renderVenueRanking (venue ?r) st))"
    by (rule renderVenueRanking_reads_currentData)
  have o: "venue_select_html (doc st1) = Options opts"
    using h assms(7) by simp
  from assign_select_value_on_options [OF o, of "str_or (venue ?r) []"]
  have v: "venue_select_value (doc (renderVenueRanking (venue ?r) ?st0))
         = (if str_or (venue ?r) [] \<in> fst ` set opts then str_or (venue ?r) [] else [])"
    and t: "ticket_list (doc (renderVenueRanking (venue ?r) ?st0)) = ticket_list (doc st1)"
    by (simp_all add: renderVenueRanking_frame)
  from cs r sel rk v t e show ?thesis
    by simp
qed

text \<open>
  Claim C8, as amended. \<open>selectRace\<close> returns the state as it is when there is no
  current snapshot, when the snapshot has no \<open>chance_races\<close>, and when the index is out of
  range. For a valid index, on a page whose drop-down holds options of plain venue codes:
  when the race has a \<open>tickets\<close> list in which every ticket has an amount, it renders the
  list with the ticket renderer (one card per ticket and the total of the amounts, or
  the placeholder when the list is empty); when the race has no \<open>tickets\<close> property, it
  leaves the ticket list as it was. In both cases it assigns the venue code of the race
  (or the empty string) to the drop-down, whose value then reads as that code when the
  drop-down has an option of that code and as the empty string when it has none, and it
  renders the ranking of the venue of the race.
\<close>

theorem selectRace_renders_or_skips:
  "(currentData st = None \<longrightarrow> selectRace i st = Inr st)
   \<and> (currentData st = Some data \<and> chance_races data = None \<longrightarrow> selectRace i st = Inr st)
   \<and> (currentData st = Some data \<and> chance_races data = Some rs
        \<and> (i < 0 \<or> int (length rs) \<le> i) \<longrightarrow> selectRace i st = Inr st)
   \<and> (currentData st = Some data \<and> chance_races data = Some rs \<and> 0 \<le> i \<and> i < int (length rs)
        \<and> venue_select_html (doc st) = Options opts \<and> list_all plain_code (map fst opts)
        \<and> tickets (rs ! nat i) = Some ts \<and> amounts_present ts \<longrightarrow>
        (\<exists>cs st1 st'.
           ticket_cards 0 ts = Inr cs \<and> length cs = length ts
           \<and> renderTickets (Some ts) (venue_name (rs ! nat i)) (race_no (rs ! nat i)) st = Inr st1
           \<and> selectRace i st = Inr st'
           \<and> ticket_list (doc st') = ticket_list (doc st1)
           \<and> ticket_list (doc st')
               = (if ts = [] then EmptyState NoTickets
                  else TicketCards cs
                         (Loc (foldl (\<lambda>s t. js_add s (to_number (amount t))) (Fin 0) ts)))
           \<and> venue_select_value (doc st')
               = (if str_or (venue (rs ! nat i)) [] \<in> fst ` set opts
                  then str_or (venue (rs ! nat i)) [] else [])
           \<and> ranking_table (doc st')
               = ranking_table (doc (renderVenueRanking (venue (rs ! nat i)) st))))
   \<and> (currentData st = Some data \<and> chance_races data = Some rs \<and> 0 \<le> i \<and> i < int (length rs)
        \<and> venue_select_html (doc st) = Options opts \<and> list_all plain_code (map fst opts)
        \<and> tickets (rs ! nat i) = None \<longrightarrow>
        (\<exists>st'.
           selectRace i st = Inr st'
           \<and> ticket_list (doc st') = ticket_list (doc st)
           \<and> venue_select_value (doc st')
               = (if str_or (venue (rs ! nat i)) [] \<in> fst ` set opts
                  then str_or (venue (rs ! nat i)) [] else [])
           \<and> ranking_table (doc st')
               = ranking_table (doc (renderVenueRanking (venue (rs ! nat i)) st))))"
  using selectRace_noop [of st i data rs] selectRace_tickets [of st data rs i ts opts]
    selectRace_no_tickets [of st data rs i opts]
  by blast

lemma renderDashboard_options:
  "venue_select_html (doc (renderDashboard s st))
     = venue_select_html
         (renderVenueSelector (case venue_stats_summary s of None \<Rightarrow> [] | Some m \<Rightarrow> m) d)
   \<and> ticket_list (doc (renderDashboard s st)) = ticket_list (doc st)"
  by (simp add: renderDashboard_def Let_def renderChanceRaces_def renderVenueSelector_def)

lemma demo_options:
  "venue_select_html (doc demo_state)
     = Options [([], M SelectVenue), (''01'', S kiryu), (''22'', S fukuoka)]"
proof -
  have s: "sort [''01'', ''22''] = [''01'', ''22'']"
    by code_simp
  show ?thesis
    unfolding demo_state_def
    by (simp add: renderDashboard_options [of _ _ fresh_page] getDemoData_def
          renderVenueSelector_def Object_keys_def s demo_venue_01_def demo_venue_22_def
          str_or_def kiryu_def fukuoka_def)
qed

lemma no_venue_options:
  "venue_select_html (doc (renderDashboard one_without_tickets fresh_state))
     = Options [([], M SelectVenue)]"
  by (simp add: renderDashboard_options [of _ _ fresh_page] one_without_tickets_def
        snapshot_of_def renderVenueSelector_def Object_keys_def)

lemma demo_total:
  "foldl (\<lambda>s t. js_add s (to_number (amount t))) (Fin 0) demo_tickets = Fin 30000"
  by code_simp

theorem selectRace_renders_or_skips_witness:
  "Option.bind (shown_tickets (selectRace 0 demo_state)) cards_and_total
     = Some (8, Loc (Fin 30000))
   \<and> selected_venue (selectRace 0 demo_state) = Some ''01''
   \<and> shown_tickets (selectRace 1 demo_state) = Some (EmptyState NoTickets)
   \<and> selected_venue (selectRace 1 demo_state) = Some ''22''
   \<and> selectRace 2 demo_state = Inr demo_state
   \<and> selected_venue (selectRace 0 (renderDashboard one_without_tickets fresh_state)) = Some []
   \<and> shown_tickets (selectRace 1 (renderDashboard one_without_tickets fresh_state))
       = Some Initial"
proof -
  define rs where "rs = [demo_race_1, demo_race_2]"
  define rs' where "rs' = [demo_race_1, race_with_prob (Some (lit 0.3))]"
  define opts where "opts = [([], M SelectVenue), (''01'', S kiryu), (''22'', S fukuoka)]"
  define opts' where "opts' = [([] :: string, M SelectVenue)]"
  let ?st' = "renderDashboard one_without_tickets fresh_state"
  have cd: "currentData demo_state = Some (getDemoData sample_day)"
    by (simp add: demo_state_def currentData_renderDashboard)
  have cr: "chance_races (getDemoData sample_day) = Some rs"
    by (simp add: getDemoData_def rs_def)
  have cd': "currentData ?st' = Some one_without_tickets"
    by (simp add: currentData_renderDashboard)
  have cr': "chance_races one_without_tickets = Some rs'"
    by (simp add: one_without_tickets_def snapshot_of_def rs'_def)
  have len: "length rs = 2" "length rs' = 2"
    by (simp_all add: rs_def rs'_def)
  have op: "venue_select_html (doc demo_state) = Options opts"
    unfolding opts_def by (rule demo_options)
  have op': "venue_select_html (doc ?st') = Options opts'"
    unfolding opts'_def by (rule no_venue_options)
  have pl: "list_all plain_code (map fst opts)" "list_all plain_code (map fst opts')"
    unfolding opts_def opts'_def by code_simp+
  have t0: "tickets (rs ! nat 0) = Some demo_tickets" "tickets (rs' ! nat 0) = Some demo_tickets"
    by (simp_all add: rs_def rs'_def demo_race_1_def)
  have t1: "tickets (rs ! nat 1) = Some []" "tickets (rs' ! nat 1) = None"
    by (simp_all add: rs_def rs'_def demo_race_2_def race_with_prob_def)
  have am: "amounts_present demo_tickets" "amounts_present []"
    by (simp_all add: amounts_present_def demo_tickets_def mk_ticket_def)
  have ne: "demo_tickets \<noteq> []" "length demo_tickets = 8"
    by (simp_all add: demo_tickets_def)
  have v0: "str_or (venue (rs ! nat 0)) [] = ''01''" "str_or (venue (rs' ! nat 0)) [] = ''01''"
    "str_or (venue (rs ! nat 1)) [] = ''22''"
    by (simp_all add: rs_def rs'_def demo_race_1_def demo_race_2_def str_or_def)
  have m: "''01'' \<in> fst ` set opts" "''22'' \<in> fst ` set opts" "''01'' \<notin> fst ` set opts'"
    by (simp_all add: opts_def opts'_def)
  have fr: "ticket_list (doc ?st') = Initial"
    by (simp add: renderDashboard_options [of _ _ fresh_page] fresh_state_def fresh_page_def)
  from selectRace_renders_or_skips [of demo_state 0 "getDemoData sample_day" rs opts demo_tickets]
    cd cr len op pl t0 am
  obtain cs st' where "length cs = length demo_tickets" and "selectRace 0 demo_state = Inr st'"
    and "ticket_list (doc st')
       = (if demo_tickets = [] then EmptyState NoTickets
          else TicketCards cs
                 (Loc (foldl (\<lambda>s t. js_add s (to_number (amount t))) (Fin 0) demo_tickets)))"
    and "venue_select_value (doc st')
       = (if str_or (venue (rs ! nat 0)) [] \<in> fst ` set opts
          then str_or (venue (rs ! nat 0)) [] else [])"
    by auto
  then have a: "Option.bind (shown_tickets (selectRace 0 demo_state)) cards_and_total
       = Some (8, Loc (Fin 30000))
     \<and> selected_venue (selectRace 0 demo_state) = Some ''01''"
    using ne v0 m demo_total
    by (simp add: shown_tickets_def selected_venue_def cards_and_total_def)
  from selectRace_renders_or_skips [of demo_state 1 "getDemoData sample_day" rs opts "[]"]
    cd cr len op pl t1 am
  obtain st' where "selectRace 1 demo_state = Inr st'"
    and "ticket_list (doc st') = (if [] = ([] :: ticket list) then EmptyState NoTickets
          else TicketCards [] (Loc (Fin 0)))"
    and "venue_select_value (doc st')
       = (if str_or (venue (rs ! nat 1)) [] \<in> fst ` set opts
          then str_or (venue (rs ! nat 1)) [] else [])"
    by auto
  then have b: "shown_tickets (selectRace 1 demo_state) = Some (EmptyState NoTickets)
     \<and> selected_venue (selectRace 1 demo_state) = Some ''22''"
    using v0 m by (simp add: shown_tickets_def selected_venue_def)
  from selectRace_renders_or_skips [of demo_state 2 "getDemoData sample_day" rs] cd cr len
  have c: "selectRace 2 demo_state = Inr demo_state"
    by simp
  from selectRace_renders_or_skips [of ?st' 0 one_without_tickets rs' opts' demo_tickets]
    cd' cr' len op' pl t0 am
  obtain st' where "selectRace 0 ?st' = Inr st'"
    and "venue_select_value (doc st')
       = (if str_or (venue (rs' ! nat 0)) [] \<in> fst ` set opts'
          then str_or (venue (rs' ! nat 0)) [] else [])"
    by auto
  then have d: "selected_venue (selectRace 0 ?st') = Some []"
    using v0 m by (simp add: selected_venue_def)
  from selectRace_renders_or_skips [of ?st' 1 one_without_tickets rs' opts'] cd' cr' len op' pl t1
  obtain st' where "selectRace 1 ?st' = Inr st'" and "ticket_list (doc st') = ticket_list (doc ?st')"
    by auto
  then have e: "shown_tickets (selectRace 1 ?st') = Some Initial"
    using fr by (simp add: shown_tickets_def)
  from a b c d e show ?thesis
    by blast
qed

lemma renderTickets_frame:
  "renderTickets tks vn rn st = Inr st1 \<Longrightarrow>
     currentData st1 = currentData st \<and> venue_select_html (doc st1) = venue_select_html (doc st)"
  by (auto simp add: renderTickets_def Let_def split: option.splits if_splits sum.splits)

lemma renderVenueRanking_keeps_options:
  "venue_select_html (doc (renderVenueRanking j st)) = venue_select_html (doc st)"
  by (simp add: renderVenueRanking_def Let_def split: option.splits property.splits)

lemma selectRace_frame:
  assumes "selectRace i st = Inr st'"
  shows "currentData st' = currentData st
    \<and> venue_select_html (doc st') = venue_select_html (doc st)"
proof (cases "\<exists>data rs. currentData st = Some data \<and> chance_races data = Some rs
                \<and> 0 \<le> i \<and> i < int (length rs)")
  case False
  then have "selectRace i st = Inr st"
    by (auto simp add: selectRace_def split: option.splits)
  with assms show ?thesis by simp
next
  case True
  then obtain data rs where d: "currentData st = Some data" "chance_races data = Some rs"
    "0 \<le> i" "i < int (length rs)"
    by blast
  let ?r = "rs ! nat i"
  show ?thesis
  proof (cases "tickets ?r")
    case None
    with d assms have "st' = renderVenueRanking (venue ?r)
        (st\<lparr>doc := assign_select_value (str_or (venue ?r) []) (doc st)\<rparr>)"
      by (simp add: selectRace_def Let_def)
    then show ?thesis
      by (simp add: renderVenueRanking_frame renderVenueRanking_keeps_options
            assign_select_value_def)
  next
    case (Some ts)
    with d assms obtain st1
      where r: "renderTickets (Some ts) (venue_name ?r) (race_no ?r) st = Inr st1"
        and s: "st' = renderVenueRanking (venue ?r)
          (st1\<lparr>doc := assign_select_value (str_or (venue ?r) []) (doc st1)\<rparr>)"
      by (auto simp add: selectRace_def Let_def split: sum.splits)
    from renderTickets_frame [OF r] s show ?thesis
      by (simp add: renderVenueRanking_frame renderVenueRanking_keeps_options
            assign_select_value_def)
  qed
qed

text \<open>
  Claim C8 as stated fails: once the first race has been selected, selecting a race
  without a \<open>tickets\<close> property leaves the tickets of the first race on the page, not
  the placeholder.
\<close>

theorem selectRace_absent_tickets_counterexample:
  "tickets (race_with_prob (Some (lit 0.3))) = None
   \<and> currentData stale_state = Some one_without_tickets
   \<and> shown_tickets (selectRace 1 stale_state) = Some (ticket_list (doc stale_state))
   \<and> shown_tickets (selectRace 1 stale_state) \<noteq> Some (EmptyState NoTickets)"
proof -
  define rs where "rs = [demo_race_1, race_with_prob (Some (lit 0.3))]"
  let ?st = "renderDashboard one_without_tickets fresh_state"
  have cd: "currentData ?st = Some one_without_tickets"
    by (simp add: currentData_renderDashboard)
  have cr: "chance_races one_without_tickets = Some rs"
    by (simp add: one_without_tickets_def snapshot_of_def rs_def)
  have len: "(0::int) \<le> 0" "0 < int (length rs)" "(0::int) \<le> 1" "1 < int (length rs)"
    by (simp_all add: rs_def)
  have t0: "tickets (rs ! nat 0) = Some demo_tickets"
    by (simp add: rs_def demo_race_1_def)
  have t1: "tickets (rs ! nat 1) = None" "tickets (race_with_prob (Some (lit 0.3))) = None"
    by (simp_all add: rs_def race_with_prob_def)
  have am: "amounts_present demo_tickets" and ne: "demo_tickets \<noteq> []"
    by (simp_all add: amounts_present_def demo_tickets_def mk_ticket_def)
  from selectRace_tickets [OF cd cr len(1,2) t0 am no_venue_options]
  obtain cs st' where sel: "selectRace 0 ?st = Inr st'"
    and tl: "ticket_list (doc st')
       = (if demo_tickets = [] then EmptyState NoTickets
          else TicketCards cs
                 (Loc (foldl (\<lambda>s t. js_add s (to_number (amount t))) (Fin 0) demo_tickets)))"
    by blast
  have st: "stale_state = st'"
    by (simp add: stale_state_def sel)
  from selectRace_frame [OF sel] cd no_venue_options
  have cd1: "currentData st' = Some one_without_tickets"
    and op1: "venue_select_html (doc st') = Options [([], M SelectVenue)]"
    by simp_all
  from selectRace_no_tickets [OF cd1 cr len(3,4) t1(1) op1]
  obtain st2 where "selectRace 1 st' = Inr st2" and "ticket_list (doc st2) = ticket_list (doc st')"
    by blast
  then have "shown_tickets (selectRace 1 st') = Some (ticket_list (doc st'))"
    by (simp add: shown_tickets_def)
  moreover have "ticket_list (doc st') \<noteq> EmptyState NoTickets"
    using tl ne by simp
  ultimately show ?thesis
    using t1(2) cd1 st by simp
qed

subsection \<open>The bars of the ranking\<close>

lemma foldl_max2_Fin: "foldl max2 (Fin a) (map Fin qs) = Fin (Max (insert a (set qs)))"
proof (induction qs arbitrary: a)
  case Nil
  show ?case by simp
next
  case (Cons q qs)
  have "Max (insert (max a q) (set qs)) = Max (insert a (insert q (set qs)))"
    by (cases "set qs = {}") (simp_all add: max.assoc)
  with Cons show ?case by simp
qed

lemma Math_max_Fin: "qs \<noteq> [] \<Longrightarrow> Math_max (map Fin qs) = Fin (Max (set qs))"
  by (cases qs) (simp_all add: Math_max_def foldl_max2_Fin)

lemma to_number_prob: "probs_finite ps \<Longrightarrow> p \<in> set ps \<Longrightarrow> to_number (p_prob p) = Fin (pattern_prob_of p)"
  by (auto simp: probs_finite_def list_all_iff to_number_def pattern_prob_of_def
           split: option.splits jsnum.splits)

lemma Math_max_probs:
  assumes "ps \<noteq> []" and "probs_finite ps"
  shows "Math_max (map (\<lambda>p. to_number (p_prob p)) ps) = Fin (Max (set (map pattern_prob_of ps)))"
proof -
  have "map (\<lambda>p. to_number (p_prob p)) ps = map Fin (map pattern_prob_of ps)"
    using assms(2) by (simp add: to_number_prob)
  moreover have "map pattern_prob_of ps \<noteq> []"
    using assms(1) by simp
  ultimately show ?thesis
    using Math_max_Fin by metis
qed

lemma renderVenueRanking_table:
  assumes "jcd \<noteq> []" and "venue_patterns st jcd = Some ps" and "ps \<noteq> []"
  shows "ranking_table (doc (renderVenueRanking (Some jcd) st)) =
     RankingTable (map (\<lambda>(p, i). ranking_row_of (Math_max (map (\<lambda>p. to_number (p_prob p)) ps)) i p)
                     (zip ps [0 ..< length ps]))"
  using assms
  by (auto simp add: renderVenueRanking_def venue_patterns_def get_property_def Let_def
           split: option.splits)

lemma bar_of_row:
  assumes "to_number (p_prob p) = Fin q"
  shows "prob_bar_fill_width (ranking_row_of (Fin m) i p) = bar_text q m"
  using assms by (simp add: ranking_row_of_def bar_text_def)

lemma bar_text_full: "m \<noteq> 0 \<Longrightarrow> bar_text m m = [S ''100'', S ''%'']"
  by (simp add: bar_text_def round64_one round64_hundred toFixed0_hundred)

lemma bar_text_nearest:
  "js_mul (js_div (Fin q) (Fin m)) (Fin 100) = Fin d \<Longrightarrow> 0 \<le> d \<Longrightarrow> d < 10 ^ 21 \<Longrightarrow>
     bar_text q m = nearest_percent d"
  by (simp add: bar_text_def nearest_percent_def toFixed0_nearest)

text \<open>
  Claim C9, as amended. For a venue of the current snapshot whose \<open>top_patterns\<close> is
  not empty, with every probability present and finite and the largest one not zero, the
  table has one row per pattern. The bar of a row is \<open>(prob / max * 100).toFixed(0)\<close>
  percent, \<open>max\<close> being the largest probability of the venue: when the double that the
  quotient and the product give is \<open>d\<close>, not negative and below \<open>10^21\<close>, it is the integer
  nearest to \<open>d\<close>. Every pattern of the largest probability has a bar of 100%.
\<close>

theorem bar_width_relative_to_max:
  assumes "jcd \<noteq> []" and "venue_patterns st jcd = Some ps" and "ps \<noteq> []"
    and "probs_finite ps" and "Max (set (map pattern_prob_of ps)) \<noteq> 0"
  shows "\<exists>rows. ranking_table (doc (renderVenueRanking (Some jcd) st)) = RankingTable rows
     \<and> length rows = length ps
     \<and> (\<forall>i < length ps.
          prob_bar_fill_width (rows ! i)
            = bar_text (pattern_prob_of (ps ! i)) (Max (set (map pattern_prob_of ps)))
          \<and> (\<forall>d. js_mul (js_div (Fin (pattern_prob_of (ps ! i)))
                              (Fin (Max (set (map pattern_prob_of ps))))) (Fin 100) = Fin d
                  \<and> 0 \<le> d \<and> d < 10 ^ 21 \<longrightarrow>
                prob_bar_fill_width (rows ! i) = nearest_percent d)
          \<and> (pattern_prob_of (ps ! i) = Max (set (map pattern_prob_of ps)) \<longrightarrow>
               prob_bar_fill_width (rows ! i) = [S ''100'', S ''%'']))"
proof -
  let ?m = "Max (set (map pattern_prob_of ps))"
  let ?rows = "map (\<lambda>(p, i). ranking_row_of (Fin ?m) i p) (zip ps [0 ..< length ps])"
  have tab: "ranking_table (doc (renderVenueRanking (Some jcd) st)) = RankingTable ?rows"
    using renderVenueRanking_table [OF assms(1,2,3)] Math_max_probs [OF assms(3,4)] by simp
  have row: "?rows ! i = ranking_row_of (Fin ?m) i (ps ! i)" if "i < length ps" for i
    using that by simp
  have bar: "prob_bar_fill_width (?rows ! i) = bar_text (pattern_prob_of (ps ! i)) ?m"
    if "i < length ps" for i
  proof -
    have "to_number (p_prob (ps ! i)) = Fin (pattern_prob_of (ps ! i))"
      using assms(4) that by (simp add: to_number_prob)
    from bar_of_row [OF this] show ?thesis
      using row [OF that] by simp
  qed
  have near: "prob_bar_fill_width (?rows ! i) = nearest_percent d"
    if "i < length ps"
      and "js_mul (js_div (Fin (pattern_prob_of (ps ! i))) (Fin ?m)) (Fin 100) = Fin d"
      and "0 \<le> d" and "d < 10 ^ 21" for i d
    using bar [OF that(1)] bar_text_nearest [OF that(2,3,4)] by simp
  have top: "prob_bar_fill_width (?rows ! i) = [S ''100'', S ''%'']"
    if "i < length ps" and "pattern_prob_of (ps ! i) = ?m" for i
    using bar [OF that(1)] that(2) bar_text_full [OF assms(5)] by simp
  have "length ?rows = length ps"
    by simp
  with tab bar near top show ?thesis
    by blast
qed

theorem bar_width_relative_to_max_witness:
  "map prob_bar_fill_width
     (rows_of (ranking_table (doc (renderVenueRanking (Some ''07'') two_pattern_state))))
   = [[S ''100'', S ''%''], [S ''27'', S ''%'']]"
proof -
  define ps where "ps = [mk_pattern ''1-2-3'' 0.08 0.08 8 makuri,
                         mk_pattern ''1-3-2'' 0.022 0.102 2 makuri]"
  define m where "m = Max (set (map pattern_prob_of ps))"
  have a: "''07'' \<noteq> []" by simp
  have b: "venue_patterns two_pattern_state ''07'' = Some ps"
    by (simp add: venue_patterns_def two_pattern_state_def currentData_renderDashboard ps_def)
  have c: "ps \<noteq> []" "length ps = 2" "0 < length ps" "1 < length ps"
    by (simp_all add: ps_def)
  have d: "probs_finite ps"
    unfolding ps_def by code_simp
  have e: "m \<noteq> 0"
    unfolding m_def ps_def by code_simp
  have top: "pattern_prob_of (ps ! 0) = m"
    unfolding m_def ps_def by code_simp
  have low: "bar_text (pattern_prob_of (ps ! 1)) m = [S ''27'', S ''%'']"
    unfolding m_def ps_def by code_simp
  from bar_width_relative_to_max [OF a b c(1) d e [unfolded m_def]] obtain rows
    where t: "ranking_table (doc (renderVenueRanking (Some ''07'') two_pattern_state))
                = RankingTable rows"
      and l: "length rows = length ps"
      and w: "\<forall>i < length ps.
          prob_bar_fill_width (rows ! i) = bar_text (pattern_prob_of (ps ! i)) m
          \<and> (pattern_prob_of (ps ! i) = m \<longrightarrow>
               prob_bar_fill_width (rows ! i) = [S ''100'', S ''%''])"
    unfolding m_def by blast
  from w c(3) top have w0: "prob_bar_fill_width (rows ! 0) = [S ''100'', S ''%'']"
    by blast
  from w c(4) low have w1: "prob_bar_fill_width (rows ! 1) = [S ''27'', S ''%'']"
    by simp
  from l c(2) obtain r0 r1 where rows: "rows = [r0, r1]"
    by (auto simp: length_Suc_conv numeral_2_eq_2)
  from w0 w1 show ?thesis
    by (simp add: t rows rows_of_def)
qed

text \<open>
  Claim C9 as stated fails: when the only pattern of a venue has probability 0, the
  width of its bar is \<open>NaN%\<close>, not 100%.
\<close>

theorem bar_width_zero_max_counterexample:
  "venue_patterns zero_prob_state ''01'' = Some [mk_pattern ''1-2-3'' 0 0 0 makuri]
   \<and> map prob_bar_fill_width
        (rows_of (ranking_table (doc (renderVenueRanking (Some ''01'') zero_prob_state))))
      = [[N NaN, S ''%'']]
   \<and> map prob_bar_fill_width
        (rows_of (ranking_table (doc (renderVenueRanking (Some ''01'') zero_prob_state))))
      \<noteq> [[S ''100'', S ''%'']]"
  by code_simp

text \<open>The bars of the first venue of the demo data: 100% for 0.082, 79% for 0.065.\<close>

lemma demo_bars:
  "map (\<lambda>p. bar_text (pattern_prob_of p) (Max (set (map pattern_prob_of
          [mk_pattern ''2-3-4'' 0.082 0.082 35 makuri,
           mk_pattern ''3-2-4'' 0.065 0.147 28 makurizashi]))))
     [mk_pattern ''2-3-4'' 0.082 0.082 35 makuri,
      mk_pattern ''3-2-4'' 0.065 0.147 28 makurizashi]
   = [[S ''100'', S ''%''], [S ''79'', S ''%'']]"
  by code_simp

text \<open>An inherited property is not a venue: the ranking shows the placeholder of a
  venue without patterns, not that of a missing venue.\<close>

lemma inherited_property_ranking:
  "ranking_table (doc (renderVenueRanking (Some ''constructor'') zero_prob_state))
     = EmptyState NoRanking
   \<and> ranking_table (doc (renderVenueRanking (Some ''99'') zero_prob_state)) = EmptyState NoData"
  by (simp add: renderVenueRanking_def zero_prob_state_def currentData_renderDashboard
        get_property_def Object_prototype_names_def)

end
